theory Spec2Isabelle
  imports Complex_Main
begin

section \<open>Ticker resolution (services/market/config.py)\<close>

text \<open>
  Python strings are modelled as \<open>string\<close>. \<open>str.upper\<close> is modelled on the ASCII
  letters, which is all the comparison against the sentinel list can observe.
\<close>

definition upper_char :: "char \<Rightarrow> char" where
  "upper_char c =
     (let n = (of_char c :: nat) in if 97 \<le> n \<and> n \<le> 122 then char_of (n - 32) else c)"

definition upper :: "string \<Rightarrow> string" where
  "upper s = map upper_char s"

definition endswith :: "string \<Rightarrow> string \<Rightarrow> bool" where
  "endswith s suf = (length suf \<le> length s \<and> drop (length s - length suf) s = suf)"

definition CRYPTO_SET :: "string list" where
  "CRYPTO_SET = [''BTC'', ''ETH'', ''SOL'', ''ADA'', ''DOT'', ''DOGE'', ''SHIB'', ''LINK'',
                 ''UNI'', ''MATIC'', ''NEXO'', ''USDT'', ''CRO'', ''LTC'', ''XRP'']"

text \<open>
  \<open>MarketDataConfig.resolve_ticker\<close>. The argument is a \<open>str\<close>, so the
  \<open>isinstance\<close> test is always true; \<open>None\<close> is the Python \<open>None\<close>.
\<close>

definition resolve_ticker :: "string \<Rightarrow> string option" where
  "resolve_ticker currency =
     (if currency = [] \<or> upper currency \<in> set [''USD'', ''UNKNOWN'', ''-'', '''']
      then None
      else if endswith currency ''-USD'' \<or> endswith currency ''=X'' then Some currency
      else if CHR ''.'' \<in> set currency then Some currency
      else if currency \<in> set CRYPTO_SET then Some (currency @ ''-USD'')
      else if length currency = 3 then Some (currency @ ''USD=X'')
      else Some (currency @ ''-USD''))"

section \<open>Simple time-weighted return (services/portfolio/performance.py)\<close>

text \<open>
  \<open>Decimal\<close> values are modelled as exact rationals: the model leaves out the rounding
  of \<open>Decimal\<close> division to the context precision.
\<close>

definition calculate_twr :: "rat \<Rightarrow> rat \<Rightarrow> rat \<Rightarrow> rat" where
  "calculate_twr start_value end_value net_flow =
     (if start_value = 0 then (if net_flow > 0 then 0 else 0)
      else if start_value + net_flow = 0 then 0
      else (end_value - net_flow) / start_value - 1)"

section \<open>Valuation (services/portfolio/valuation.py)\<close>

text \<open>
  Python exceptions that the modelled code can raise are values of \<open>py_error\<close>; a
  computation that may raise returns \<open>py_error + 'a\<close>.
\<close>

datatype py_error =
  ZeroDivisionError | KeyError | TypeError | IntegrityError | ValueError | OverflowError

text \<open>
  The fields of the \<open>Asset\<close> row that valuation and reconstruction read. Nullable
  columns are options. \<open>quantity\<close> and \<open>purchase_price\<close> are
  \<open>Numeric(20, 8)\<close> columns, read back as \<open>Decimal\<close>.
\<close>

record asset =
  a_id :: int
  ticker_symbol :: "string option"
  quantity :: rat
  purchase_price :: "rat option"
  currency :: "string option"

text \<open>
  A rate map \<open>Dict[str, Decimal]\<close> whose values the code also tests against
  \<open>None\<close>: a key is absent (\<open>None\<close>), present with value \<open>None\<close>
  (\<open>Some None\<close>) or present with a number.
\<close>

type_synonym rate_map = "string \<rightharpoonup> rat option"

text \<open>
  \<open>str.replace(old, "")\<close>: every non-overlapping occurrence of \<open>old\<close>, scanning from
  the left, is removed. The counter is the number of characters of a matched occurrence
  still to be skipped.
\<close>

fun remove_occurrences :: "string \<Rightarrow> nat \<Rightarrow> string \<Rightarrow> string" where
  "remove_occurrences old k [] = []"
| "remove_occurrences old (Suc k) (c # cs) = remove_occurrences old k cs"
| "remove_occurrences old 0 (c # cs) =
     (if old \<noteq> [] \<and> take (length old) (c # cs) = old
      then remove_occurrences old (length old - 1) cs
      else c # remove_occurrences old 0 cs)"

definition replace_with_empty :: "string \<Rightarrow> string \<Rightarrow> string" where
  "replace_with_empty s old = remove_occurrences old 0 s"

definition alternatives :: "string \<Rightarrow> string list" where
  "alternatives symbol =
     [symbol, symbol @ ''=X'', symbol @ ''-USD'',
      replace_with_empty symbol ''-USD'', replace_with_empty symbol ''=X'']"

definition rate_present :: "rate_map \<Rightarrow> string \<Rightarrow> rat option" where
  "rate_present rates k = (case rates k of Some (Some r) \<Rightarrow> Some r | _ \<Rightarrow> None)"

text \<open>
  \<open>find_rate\<close> is the body of \<open>_get_rate_safe\<close> up to its final
  \<open>return default\<close>: \<open>Some r\<close> when a lookup succeeds, \<open>None\<close> when the function
  falls back on the default.
\<close>

definition find_rate :: "rate_map \<Rightarrow> string \<Rightarrow> rat option" where
  "find_rate rates symbol =
     (if symbol = [] then None
      else case rate_present rates symbol of
             Some r \<Rightarrow> Some r
           | None \<Rightarrow>
               (case List.find (\<lambda>alt. rate_present rates alt \<noteq> None) (alternatives symbol) of
                  Some alt \<Rightarrow> rate_present rates alt
                | None \<Rightarrow> None))"

text \<open>\<open>_get_rate_safe\<close> with a \<open>Decimal\<close> default (\<open>Decimal("1.0")\<close> unless given).\<close>

definition get_rate_safe :: "rate_map \<Rightarrow> string \<Rightarrow> rat \<Rightarrow> rat" where
  "get_rate_safe rates symbol dflt =
     (case find_rate rates symbol of Some r \<Rightarrow> r | None \<Rightarrow> dflt)"

text \<open>
  \<open>Decimal\<close> division: a zero divisor raises (\<open>decimal.DivisionByZero\<close>, or
  \<open>InvalidOperation\<close> for 0/0, both modelled by \<open>ZeroDivisionError\<close>).
\<close>

definition dec_div :: "rat \<Rightarrow> rat \<Rightarrow> py_error + rat" where
  "dec_div x y = (if y = 0 then Inl ZeroDivisionError else Inr (x / y))"

text \<open>
  The purchase-price fallback shared by branches 2 and 3 of \<open>get_price\<close>:
  \<open>asset.purchase_price or Decimal("0.0")\<close>, \<open>asset.currency or "USD"\<close>.
\<close>

definition purchase_price_in_usd :: "asset \<Rightarrow> rate_map \<Rightarrow> rat" where
  "purchase_price_in_usd a rates =
     (let pp = (case purchase_price a of None \<Rightarrow> 0 | Some p \<Rightarrow> p);
          cur = (case currency a of None \<Rightarrow> ''USD'' | Some c \<Rightarrow> if c = [] then ''USD'' else c)
      in pp * get_rate_safe rates cur 1)"

text \<open>
  The value of the local variable \<open>price_in_usd\<close> of \<open>get_price\<close> when the final
  conversion is reached. The call with \<open>default=None\<close> is \<open>find_rate\<close>.
\<close>

definition price_in_usd :: "asset \<Rightarrow> rate_map \<Rightarrow> (int \<rightharpoonup> rat \<times> string) \<Rightarrow> rat" where
  "price_in_usd a rates manual_prices =
     (case manual_prices (a_id a) of
        Some (price, cur) \<Rightarrow> price * get_rate_safe rates cur 1
      | None \<Rightarrow>
          (if ticker_symbol a \<noteq> None \<and> ticker_symbol a \<noteq> Some []
           then (case find_rate rates (case ticker_symbol a of Some s \<Rightarrow> s | None \<Rightarrow> []) of
                   Some rate \<Rightarrow> rate
                 | None \<Rightarrow> purchase_price_in_usd a rates)
           else purchase_price_in_usd a rates))"

definition get_price ::
  "asset \<Rightarrow> rate_map \<Rightarrow> (int \<rightharpoonup> rat \<times> string) \<Rightarrow> string \<Rightarrow> py_error + rat" where
  "get_price a rates manual_prices main_currency =
     (let main_rate_usd = get_rate_safe rates main_currency 1
      in if main_rate_usd = 0 then Inr 0
         else dec_div (price_in_usd a rates manual_prices) main_rate_usd)"

section \<open>Historical quantities (services/portfolio/service.py)\<close>

text \<open>
  A \<open>DateTime\<close> value is modelled as the number of seconds since the epoch, a
  \<open>date\<close> as a day number. \<open>date_of\<close> is \<open>datetime.date()\<close>; \<open>midnight\<close> is the
  timestamp a \<open>date\<close> parameter is bound to when it is compared with a \<open>DateTime\<close>
  column in a query (\<open>Transaction.date > target_date\<close>): the database drivers turn the
  date into the \<open>DateTime\<close> of its first instant.
\<close>

record transaction =
  t_asset_id :: int
  t_type :: string
  t_date :: int
  quantity_change :: rat

definition midnight :: "int \<Rightarrow> int" where
  "midnight d = d * 86400"

definition date_of :: "int \<Rightarrow> int" where
  "date_of ts = ts div 86400"

text \<open>
  \<open>sanitize_decimal\<close> (math_utils.py) on a finite number with the default
  \<open>prec = 8\<close>: \<open>quantize\<close> to eight decimal places with \<open>ROUND_HALF_UP\<close>, which
  rounds ties away from zero.
\<close>

definition sanitize_decimal :: "rat \<Rightarrow> rat" where
  "sanitize_decimal v =
     (let s = v * 10 ^ 8
      in (if 0 \<le> s then of_int \<lfloor>s + 1 / 2\<rfloor> else - of_int \<lfloor>- s + 1 / 2\<rfloor>) / 10 ^ 8)"

type_synonym quantities = "int \<rightharpoonup> rat"

text \<open>\<open>{a.id: sanitize_decimal(a.quantity) for a in assets}\<close>\<close>

definition current_quantities :: "asset list \<Rightarrow> quantities" where
  "current_quantities assets =
     fold (\<lambda>a m. m(a_id a \<mapsto> sanitize_decimal (quantity a))) assets Map.empty"

text \<open>
  The statement that both reversals run for a transaction: \<open>quantities[tx.asset_id] -= q\<close> for a \<open>"BUY"\<close>,
  \<open>+= q\<close> for a \<open>"SELL"\<close>, nothing for any other type. The augmented assignment
  raises \<open>KeyError\<close> on a missing key.
\<close>

definition revert_tx :: "quantities \<Rightarrow> transaction \<Rightarrow> py_error + quantities" where
  "revert_tx qs tx =
     (let q = sanitize_decimal (quantity_change tx)
      in if t_type tx = ''BUY''
         then (case qs (t_asset_id tx) of
                 None \<Rightarrow> Inl KeyError
               | Some v \<Rightarrow> Inr (qs(t_asset_id tx \<mapsto> v - q)))
         else if t_type tx = ''SELL''
         then (case qs (t_asset_id tx) of
                 None \<Rightarrow> Inl KeyError
               | Some v \<Rightarrow> Inr (qs(t_asset_id tx \<mapsto> v + q)))
         else Inr qs)"

fun revert_all :: "quantities \<Rightarrow> transaction list \<Rightarrow> py_error + quantities" where
  "revert_all qs [] = Inr qs"
| "revert_all qs (tx # txs) =
     (case revert_tx qs tx of Inl e \<Rightarrow> Inl e | Inr qs' \<Rightarrow> revert_all qs' txs)"

text \<open>
  The query of \<open>_calculate_historical_quantities\<close>:
  \<open>Transaction.asset_id.in_(asset_ids), Transaction.date > target_date\<close>. Rows come back
  in ledger order.
\<close>

definition txs_after :: "asset list \<Rightarrow> transaction list \<Rightarrow> int \<Rightarrow> transaction list" where
  "txs_after assets ledger target_date =
     filter (\<lambda>tx. t_asset_id tx \<in> set (map a_id assets) \<and> midnight target_date < t_date tx)
       ledger"

text \<open>\<open>PortfolioService._calculate_historical_quantities\<close>\<close>

definition calculate_historical_quantities ::
  "asset list \<Rightarrow> transaction list \<Rightarrow> int \<Rightarrow> py_error + quantities" where
  "calculate_historical_quantities assets ledger target_date =
     (let quantities = current_quantities assets;
          asset_ids = map a_id assets
      in if asset_ids = [] then Inr quantities
         else revert_all quantities (txs_after assets ledger target_date))"



text \<open>
  Step 5 of \<open>get_history\<close>, the backward sweep. The pointer \<open>tx_ptr\<close> into
  \<open>all_txs\<close> is modelled by the list of transactions from the pointer on.
  \<open>advance\<close> is the inner \<open>while\<close> loop for one date, \<open>sweep\<close> the \<open>for\<close> loop
  over \<open>dates_desc\<close>; \<open>daily_quantities\<close> is keyed by the date.
\<close>

fun advance ::
  "int \<Rightarrow> transaction list \<Rightarrow> quantities \<Rightarrow> py_error + (transaction list \<times> quantities)" where
  "advance d [] qs = Inr ([], qs)"
| "advance d (tx # txs) qs =
     (if d < date_of (t_date tx)
      then (case revert_tx qs tx of Inl e \<Rightarrow> Inl e | Inr qs' \<Rightarrow> advance d txs qs')
      else Inr (tx # txs, qs))"

fun sweep ::
  "int list \<Rightarrow> transaction list \<Rightarrow> quantities \<Rightarrow> (int \<rightharpoonup> quantities)
    \<Rightarrow> py_error + (int \<rightharpoonup> quantities)" where
  "sweep [] txs qs daily = Inr daily"
| "sweep (d # ds) txs qs daily =
     (case advance d txs qs of
        Inl e \<Rightarrow> Inl e
      | Inr (txs', qs') \<Rightarrow> sweep ds txs' qs' (daily(d \<mapsto> qs')))"

text \<open>
  \<open>all_txs\<close> is the query \<open>asset_id IN asset_ids AND date > start_date ORDER BY date
  DESC\<close>; \<open>dates_desc = sorted(dates, reverse=True)\<close>.
\<close>

definition daily_quantities ::
  "asset list \<Rightarrow> transaction list \<Rightarrow> int \<Rightarrow> int list \<Rightarrow> py_error + (int \<rightharpoonup> quantities)" where
  "daily_quantities assets ledger start_date dates =
     (let all_txs = sort_key (\<lambda>tx. - t_date tx)
            (filter (\<lambda>tx. t_asset_id tx \<in> set (map a_id assets) \<and> midnight start_date < t_date tx)
               ledger);
          dates_desc = rev (sort dates)
      in sweep dates_desc all_txs (current_quantities assets) Map.empty)"

text \<open>Reading one asset's quantity out of the two results.\<close>

definition quantity_in :: "py_error + quantities \<Rightarrow> int \<Rightarrow> rat option" where
  "quantity_in res a = (case res of Inl e \<Rightarrow> None | Inr qs \<Rightarrow> qs a)"

definition daily_quantity_in :: "py_error + (int \<rightharpoonup> quantities) \<Rightarrow> int \<Rightarrow> int \<Rightarrow> rat option" where
  "daily_quantity_in res d a =
     (case res of Inl e \<Rightarrow> None
      | Inr daily \<Rightarrow> (case daily d of None \<Rightarrow> None | Some qs \<Rightarrow> qs a))"

text \<open>
  The net change that reverting a list of transactions makes to one asset's quantity,
  used to state what the reversals compute.
\<close>

definition reversal :: "transaction \<Rightarrow> rat" where
  "reversal tx =
     (if t_type tx = ''BUY'' then - sanitize_decimal (quantity_change tx)
      else if t_type tx = ''SELL'' then sanitize_decimal (quantity_change tx)
      else 0)"

definition net_reversal :: "int \<Rightarrow> transaction list \<Rightarrow> rat" where
  "net_reversal a txs = sum_list (map reversal (filter (\<lambda>tx. t_asset_id tx = a) txs))"

definition adjust :: "quantities \<Rightarrow> transaction list \<Rightarrow> quantities" where
  "adjust qs txs = (\<lambda>a. map_option (\<lambda>v. v + net_reversal a txs) (qs a))"

section \<open>The rate store and its compaction (models.py, agents/market_compactor.py)\<close>

text \<open>
  A number as Python hands it around: a finite value, or one of the special values of
  \<open>float\<close> and \<open>Decimal\<close>. Finite values are exact; rounding is left out.
\<close>

datatype py_num = Num rat | NaN | PosInf | NegInf

text \<open>
  A row of \<open>exchange_rate_history\<close>; the table is a list of rows. Timestamps are
  seconds since the epoch.
\<close>

record rate_row =
  r_id :: int
  r_currency :: string
  r_rate :: py_num
  r_timestamp :: int

type_synonym rate_store = "rate_row list"

text \<open>
  The partition keys of the four queries. The 15-minute, hourly and daily keys are the
  same in both dialects; the weekly key is \<open>DATE_TRUNC('week', timestamp)\<close> (weeks
  starting on Monday) on PostgreSQL and \<open>strftime('%Y-%W', timestamp)\<close> (calendar
  year and Monday-based week of the year) on SQLite. Day 0 is Thursday 1970-01-01.
\<close>

definition bucket_15min :: "int \<Rightarrow> int \<times> int" where
  "bucket_15min ts = (ts div 3600, ((ts mod 3600) div 60) div 15)"

definition bucket_1h :: "int \<Rightarrow> int" where
  "bucket_1h ts = ts div 3600"

definition bucket_1d :: "int \<Rightarrow> int" where
  "bucket_1d ts = ts div 86400"

definition bucket_1w_postgresql :: "int \<Rightarrow> int" where
  "bucket_1w_postgresql ts = (ts div 86400 + 3) div 7"

definition year_of_day :: "int \<Rightarrow> int" where
  "year_of_day day =
     (let z = day + 719468;
          era = z div 146097;
          doe = z - era * 146097;
          yoe = (doe - doe div 1460 + doe div 36524 - doe div 146096) div 365;
          doy = doe - (365 * yoe + yoe div 4 - yoe div 100);
          mp = (5 * doy + 2) div 153
      in yoe + era * 400 + (if mp < 10 then 0 else 1))"

definition first_day_of_year :: "int \<Rightarrow> int" where
  "first_day_of_year y =
     (let y' = y - 1;
          era = y' div 400;
          yoe = y' - era * 400
      in era * 146097 + (yoe * 365 + yoe div 4 - yoe div 100 + 306) - 719468)"

definition bucket_1w_sqlite :: "int \<Rightarrow> int \<times> int" where
  "bucket_1w_sqlite ts =
     (let day = ts div 86400;
          y = year_of_day day;
          yday = day - first_day_of_year y;
          wday = (day + 3) mod 7
      in (y, (yday + 7 - wday) div 7))"

text \<open>
  One \<open>DELETE ... WHERE id IN (SELECT id ... WHERE rn > 1)\<close>: among the rows older
  than the cutoff, partitioned by currency and bucket and numbered by ascending
  timestamp, every row but the first of its partition is deleted. A row has
  \<open>rn > 1\<close> exactly when another row of its partition is ordered before it; rows with
  equal timestamps (which the unique constraint on currency and timestamp excludes) are
  ordered by id. The second component is the statement's \<open>rowcount\<close>.
\<close>

definition deleted_by :: "(int \<Rightarrow> 'b) \<Rightarrow> int \<Rightarrow> rate_store \<Rightarrow> rate_row \<Rightarrow> bool" where
  "deleted_by bucket cutoff rows r =
     (r_timestamp r < cutoff \<and>
      list_ex (\<lambda>r'. r_timestamp r' < cutoff \<and> r_currency r' = r_currency r \<and>
                    bucket (r_timestamp r') = bucket (r_timestamp r) \<and>
                    (r_timestamp r' < r_timestamp r \<or>
                     r_timestamp r' = r_timestamp r \<and> r_id r' < r_id r)) rows)"

definition compact_tier :: "(int \<Rightarrow> 'b) \<Rightarrow> int \<Rightarrow> rate_store \<Rightarrow> rate_store \<times> nat" where
  "compact_tier bucket cutoff rows =
     (filter (\<lambda>r. \<not> deleted_by bucket cutoff rows r) rows,
      length (filter (deleted_by bucket cutoff rows) rows))"

text \<open>
  The four statements in their fixed order, for any four partition keys. The result is
  the table after the commit and the four \<open>deleted_*\<close> counts.
\<close>

definition run_tiers ::
  "(int \<Rightarrow> 'a) \<Rightarrow> (int \<Rightarrow> 'b) \<Rightarrow> (int \<Rightarrow> 'c) \<Rightarrow> (int \<Rightarrow> 'd) \<Rightarrow> int \<times> int \<times> int \<times> int
    \<Rightarrow> rate_store \<Rightarrow> rate_store \<times> nat \<times> nat \<times> nat \<times> nat" where
  "run_tiers b15 b1h b1d b1w cutoffs rows =
     (case cutoffs of (c15, c1h, c1d, c1w) \<Rightarrow>
        (case compact_tier b15 c15 rows of (s1, d1) \<Rightarrow>
        (case compact_tier b1h c1h s1 of (s2, d2) \<Rightarrow>
        (case compact_tier b1d c1d s2 of (s3, d3) \<Rightarrow>
        (case compact_tier b1w c1w s3 of (s4, d4) \<Rightarrow>
           (s4, d1, d2, d3, d4))))))"

datatype dialect = PostgreSQL | SQLite

text \<open>
  \<open>agent_config.get(key, default)\<close> on a configuration whose values are day counts,
  and the cutoffs \<open>utc_now() - timedelta(days=...)\<close>; \<open>now\<close> is what \<open>utc_now()\<close>
  returns during the run.
\<close>

definition config_get :: "(string \<rightharpoonup> int) \<Rightarrow> string \<Rightarrow> int \<Rightarrow> int" where
  "config_get cfg k d = (case cfg k of None \<Rightarrow> d | Some v \<Rightarrow> v)"

definition cutoffs :: "int \<Rightarrow> (string \<rightharpoonup> int) \<Rightarrow> int \<times> int \<times> int \<times> int" where
  "cutoffs now agent_config =
     (let ret_5min = config_get agent_config ''retention_5min_days'' 3;
          ret_15min = config_get agent_config ''retention_15min_days'' 14;
          ret_1h = config_get agent_config ''retention_1h_days'' 90;
          ret_1d = config_get agent_config ''retention_1d_days'' 365
      in (now - 86400 * ret_5min, now - 86400 * ret_15min,
          now - 86400 * ret_1h, now - 86400 * ret_1d))"

text \<open>\<open>MarketCompactorAgent.execute\<close>\<close>

definition execute ::
  "dialect \<Rightarrow> int \<Rightarrow> (string \<rightharpoonup> int) \<Rightarrow> rate_store \<Rightarrow> rate_store \<times> nat \<times> nat \<times> nat \<times> nat" where
  "execute dia now agent_config rows =
     (case dia of
        PostgreSQL \<Rightarrow>
          run_tiers bucket_15min bucket_1h bucket_1d bucket_1w_postgresql
            (cutoffs now agent_config) rows
      | SQLite \<Rightarrow>
          run_tiers bucket_15min bucket_1h bucket_1d bucket_1w_sqlite
            (cutoffs now agent_config) rows)"

section \<open>Persistence of rates (services/market/persistence.py)\<close>

text \<open>
  The table has the unique constraint \<open>uq_currency_timestamp\<close>: an \<open>INSERT\<close> of a
  row whose currency and timestamp are already present raises \<open>IntegrityError\<close>. New
  rows get the next free id.
\<close>

definition key_exists :: "rate_store \<Rightarrow> string \<Rightarrow> int \<Rightarrow> bool" where
  "key_exists rows c ts = list_ex (\<lambda>r. r_currency r = c \<and> r_timestamp r = ts) rows"

definition next_id :: "rate_store \<Rightarrow> int" where
  "next_id rows = fold max (map r_id rows) 0 + 1"

definition insert_row :: "rate_store \<Rightarrow> string \<times> py_num \<times> int \<Rightarrow> py_error + rate_store" where
  "insert_row rows x =
     (case x of (c, rate, ts) \<Rightarrow>
        if key_exists rows c ts then Inl IntegrityError
        else Inr (rows @ [\<lparr>r_id = next_id rows, r_currency = c, r_rate = rate,
                           r_timestamp = ts\<rparr>]))"

text \<open>
  \<open>session.add\<close> / \<open>session.add_all\<close> followed by \<open>commit\<close>: the pending rows are
  inserted in one transaction, which fails as a whole on the first violation.
\<close>

fun insert_rows :: "rate_store \<Rightarrow> (string \<times> py_num \<times> int) list \<Rightarrow> py_error + rate_store" where
  "insert_rows rows [] = Inr rows"
| "insert_rows rows (x # xs) =
     (case insert_row rows x of Inl e \<Rightarrow> Inl e | Inr rows' \<Rightarrow> insert_rows rows' xs)"

text \<open>
  The validation of \<open>save_rates\<close>, the same test for a \<open>Decimal\<close> and for a
  \<open>float\<close>: \<open>None\<close>, NaN, an infinity or a value \<open>\<le> 0\<close> is invalid.
\<close>

definition is_invalid :: "py_num option \<Rightarrow> bool" where
  "is_invalid rate =
     (case rate of
        None \<Rightarrow> True
      | Some NaN \<Rightarrow> True
      | Some PosInf \<Rightarrow> True
      | Some NegInf \<Rightarrow> True
      | Some (Num q) \<Rightarrow> q \<le> 0)"

text \<open>
  The loop of \<open>save_rates\<close> over \<open>rates.items()\<close> (a dictionary as the list of its
  items): the rows handed to \<open>session.add\<close>.
\<close>

fun pending_rates :: "(string \<times> py_num option) list \<Rightarrow> int \<Rightarrow> (string \<times> py_num \<times> int) list" where
  "pending_rates [] timestamp = []"
| "pending_rates ((cur, rate) # rest) timestamp =
     (if cur = ''USD'' then pending_rates rest timestamp
      else if is_invalid rate then pending_rates rest timestamp
      else (case rate of
              None \<Rightarrow> pending_rates rest timestamp
            | Some v \<Rightarrow> (cur, v, timestamp) # pending_rates rest timestamp))"

text \<open>
  \<open>MarketDataPersistence.save_rates\<close>: any exception, the \<open>IntegrityError\<close> of the
  commit included, is logged and leaves the table as it was.
\<close>

definition save_rates :: "(string \<times> py_num option) list \<Rightarrow> int \<Rightarrow> rate_store \<Rightarrow> rate_store" where
  "save_rates rates timestamp rows =
     (case insert_rows rows (pending_rates rates timestamp) of
        Inl e \<Rightarrow> rows
      | Inr rows' \<Rightarrow> rows')"

text \<open>
  A record of a history batch: \<open>{"currency": ..., "rate": ..., "timestamp": ...}\<close>.
  \<open>float(r["rate"])\<close> raises \<open>TypeError\<close> on \<open>None\<close> and passes every number on,
  the special values included.
\<close>

record hist_record =
  h_currency :: string
  h_rate :: "py_num option"
  h_timestamp :: int

definition to_float :: "py_num option \<Rightarrow> py_error + py_num" where
  "to_float v = (case v of None \<Rightarrow> Inl TypeError | Some x \<Rightarrow> Inr x)"

text \<open>
  Building the list of \<open>ExchangeRateHistory\<close> models from records: the first failing
  conversion raises.
\<close>

fun to_models :: "hist_record list \<Rightarrow> py_error + (string \<times> py_num \<times> int) list" where
  "to_models [] = Inr []"
| "to_models (r # rs) =
     (case to_float (h_rate r) of
        Inl e \<Rightarrow> Inl e
      | Inr v \<Rightarrow> (case to_models rs of
                    Inl e \<Rightarrow> Inl e
                  | Inr ms \<Rightarrow> Inr ((h_currency r, v, h_timestamp r) # ms)))"

text \<open>
  The \<open>ranges\<close> dictionary: per currency of the batch the timestamps, their minimum
  and their maximum.
\<close>

definition timestamps_of :: "hist_record list \<Rightarrow> string \<Rightarrow> int list" where
  "timestamps_of records c = map h_timestamp (filter (\<lambda>r. h_currency r = c) records)"

definition range_min :: "hist_record list \<Rightarrow> string \<Rightarrow> int" where
  "range_min records c = (case timestamps_of records c of [] \<Rightarrow> 0 | t # ts \<Rightarrow> fold min ts t)"

definition range_max :: "hist_record list \<Rightarrow> string \<Rightarrow> int" where
  "range_max records c = (case timestamps_of records c of [] \<Rightarrow> 0 | t # ts \<Rightarrow> fold max ts t)"

text \<open>
  Step 1 (upsert only): for every currency of the batch, delete the rows of that
  currency whose timestamp is one of the batch's timestamps for it.
\<close>

definition delete_colliding :: "hist_record list \<Rightarrow> rate_store \<Rightarrow> rate_store" where
  "delete_colliding records rows =
     filter (\<lambda>row. r_timestamp row \<notin> set (timestamps_of records (r_currency row))) rows"

text \<open>
  Step 2 (insert-if-new only): the keys found in the table for each currency of the
  batch between that currency's minimum and maximum timestamp.
\<close>

definition existing_keys :: "hist_record list \<Rightarrow> rate_store \<Rightarrow> (string \<times> int) list" where
  "existing_keys records rows =
     concat (map (\<lambda>c. map (\<lambda>row. (c, r_timestamp row))
                          (filter (\<lambda>row. r_currency row = c \<and>
                                     range_min records c \<le> r_timestamp row \<and>
                                     r_timestamp row \<le> range_max records c) rows))
                 (remdups (map h_currency records)))"

text \<open>
  The \<open>try\<close> block of \<open>save_history_batch\<close>: the new table and the count
  \<open>len(to_add_models)\<close>, or the exception raised. Nothing is committed when it
  raises, the deletions of step 1 included.
\<close>

definition first_attempt ::
  "hist_record list \<Rightarrow> bool \<Rightarrow> rate_store \<Rightarrow> py_error + (rate_store \<times> nat)" where
  "first_attempt records upsert rows =
     (if upsert
      then (case to_models records of
              Inl e \<Rightarrow> Inl e
            | Inr to_add \<Rightarrow>
                (if to_add = [] then Inr (rows, 0)
                 else (case insert_rows (delete_colliding records rows) to_add of
                         Inl e \<Rightarrow> Inl e
                       | Inr rows' \<Rightarrow> Inr (rows', length to_add))))
      else (case to_models
                   (filter (\<lambda>r. (h_currency r, h_timestamp r) \<notin> set (existing_keys records rows))
                      records) of
              Inl e \<Rightarrow> Inl e
            | Inr to_add \<Rightarrow>
                (if to_add = [] then Inr (rows, 0)
                 else (case insert_rows rows to_add of
                         Inl e \<Rightarrow> Inl e
                       | Inr rows' \<Rightarrow> Inr (rows', length to_add)))))"

text \<open>
  The row-by-row fallback after an \<open>IntegrityError\<close>: each record is converted,
  inserted and committed on its own; a record that raises is skipped.
\<close>

fun fallback_save :: "rate_store \<Rightarrow> hist_record list \<Rightarrow> rate_store \<times> nat" where
  "fallback_save rows [] = (rows, 0)"
| "fallback_save rows (r # rs) =
     (case to_float (h_rate r) of
        Inl e \<Rightarrow> fallback_save rows rs
      | Inr v \<Rightarrow>
          (case insert_row rows (h_currency r, v, h_timestamp r) of
             Inl e \<Rightarrow> fallback_save rows rs
           | Inr rows' \<Rightarrow> (case fallback_save rows' rs of (rows'', n) \<Rightarrow> (rows'', Suc n))))"

text \<open>
  \<open>MarketDataPersistence.save_history_batch\<close>. The count is \<open>None\<close> for the early
  \<open>return\<close> on an empty batch.
\<close>

definition save_history_batch ::
  "hist_record list \<Rightarrow> bool \<Rightarrow> rate_store \<Rightarrow> rate_store \<times> nat option" where
  "save_history_batch records upsert rows =
     (if records = [] then (rows, None)
      else (case first_attempt records upsert rows of
              Inr (rows', n) \<Rightarrow> (rows', Some n)
            | Inl IntegrityError \<Rightarrow>
                (case fallback_save rows records of (rows', n) \<Rightarrow> (rows', Some n))
            | Inl _ \<Rightarrow> (rows, Some 0)))"

section \<open>Persisting a backfilled series (agents/history_backfill.py)\<close>









definition row_data :: "rate_row \<Rightarrow> string \<times> py_num \<times> int" where
  "row_data row = (r_currency row, r_rate row, r_timestamp row)"

section \<open>Market data service (services/market/service.py)\<close>

text \<open>
  The service hands out \<open>Dict[str, Decimal]\<close> rate maps whose values are finite. A
  Python dictionary that is iterated is an association list with distinct keys in
  insertion order; \<open>dict_set\<close> is the assignment \<open>d[k] = v\<close>.
\<close>

type_synonym rates = "string \<rightharpoonup> rat"

definition dict_set :: "'k \<Rightarrow> 'v \<Rightarrow> ('k \<times> 'v) list \<Rightarrow> ('k \<times> 'v) list" where
  "dict_set k v d =
     (if k \<in> set (map fst d) then map (\<lambda>kv. if fst kv = k then (k, v) else kv) d
      else d @ [(k, v)])"

definition FALLBACK_RATES :: "(string \<times> rat) list" where
  "FALLBACK_RATES =
     [(''EUR'', 109 / 100), (''GBP'', 127 / 100), (''CHF'', 112 / 100), (''CAD'', 74 / 100),
      (''BTC'', 94000), (''USD'', 1), (''NEXO'', 125 / 100), (''USDT'', 1), (''CRO'', 8 / 100)]"

text \<open>\<open>MarketDataConfig.FALLBACK_RATES.get(c, Decimal("0.0"))\<close>\<close>

definition fallback_rate :: "string \<Rightarrow> rat" where
  "fallback_rate c = (case map_of FALLBACK_RATES c of None \<Rightarrow> 0 | Some r \<Rightarrow> r)"

text \<open>
  \<open>sanitize_decimal\<close> on any number (NaN and the infinities become 0), and the truth
  value of a stored rate (\<open>if record.rate\<close>: only zero is false).
\<close>

definition sanitize_num :: "py_num \<Rightarrow> rat" where
  "sanitize_num v = (case v of Num q \<Rightarrow> sanitize_decimal q | _ \<Rightarrow> 0)"

definition rate_truthy :: "py_num \<Rightarrow> bool" where
  "rate_truthy v = (case v of Num q \<Rightarrow> q \<noteq> 0 | _ \<Rightarrow> True)"

text \<open>
  What a call returns together with what it did: the table afterwards, the ticker lists
  sent to the quote provider and the currencies the table was queried for.
\<close>

record service_result =
  sr_rates :: rates
  sr_store :: rate_store
  sr_provider_log :: "string list list"
  sr_store_log :: "string list"

text \<open>
  The query of \<open>_get_rates_from_db\<close> for one currency:
  \<open>WHERE currency = c ORDER BY timestamp DESC LIMIT 1\<close>.
\<close>

definition latest_row :: "rate_store \<Rightarrow> string \<Rightarrow> rate_row option" where
  "latest_row rows c =
     (case filter (\<lambda>r. r_currency r = c) rows of
        [] \<Rightarrow> None
      | r # rs \<Rightarrow> Some (fold (\<lambda>x best. if r_timestamp best < r_timestamp x then x else best) rs r))"

text \<open>\<open>_get_rates_from_db\<close>: the loop over the currencies, with the log of lookups.\<close>

fun get_rates_from_db ::
  "rate_store \<Rightarrow> string list \<Rightarrow> rates \<Rightarrow> string list \<Rightarrow> rates \<times> string list" where
  "get_rates_from_db rows [] rs seen = (rs, seen)"
| "get_rates_from_db rows (c # cs) rs seen =
     (let v = (case latest_row rows c of
                 None \<Rightarrow> fallback_rate c
               | Some r \<Rightarrow> if rate_truthy (r_rate r) then sanitize_num (r_rate r)
                           else fallback_rate c)
      in get_rates_from_db rows cs (rs(c \<mapsto> v)) (seen @ [c]))"

text \<open>
  \<open>_fetch_fresh_rates\<close>. The quote fetcher is a parameter: \<open>fetch\<close> maps the ticker
  list to the provider's answer (\<open>fetch_current_rates\<close> catches its own exceptions and
  returns a dictionary). \<open>lock_acquired\<close> says whether the fetch lock was obtained
  before the timeout, \<open>now\<close> is \<open>utc_now()\<close>. None of the modelled steps raises, so
  the outer \<open>except Exception\<close> clause, which would set the fallback rate of every
  requested currency, is not reached.
\<close>

definition ticker_map :: "string list \<Rightarrow> (string \<times> string) list" where
  "ticker_map currencies =
     fold (\<lambda>c m. case resolve_ticker c of
                    None \<Rightarrow> m
                  | Some t \<Rightarrow> if t = [] then m else dict_set c t m) currencies []"

definition set_fallbacks :: "string list \<Rightarrow> rates \<Rightarrow> rates" where
  "set_fallbacks currencies rs = fold (\<lambda>c m. m(c \<mapsto> fallback_rate c)) currencies rs"

text \<open>
  The loop that merges the provider's answer: the rate map and \<open>persistence_data\<close>.
\<close>

fun merge_rates ::
  "(string \<times> string) list \<Rightarrow> (string \<rightharpoonup> rat) \<Rightarrow> string list \<Rightarrow> rates \<Rightarrow> (string \<times> rat) list
    \<Rightarrow> rates \<times> (string \<times> rat) list" where
  "merge_rates tm new_rates_map [] rs pd = (rs, pd)"
| "merge_rates tm new_rates_map (c # cs) rs pd =
     (case map_of tm c of
        None \<Rightarrow> merge_rates tm new_rates_map cs (rs(c \<mapsto> fallback_rate c)) pd
      | Some ticker \<Rightarrow>
          (case (if ticker = [] then None else new_rates_map ticker) of
             None \<Rightarrow> merge_rates tm new_rates_map cs (rs(c \<mapsto> fallback_rate c)) pd
           | Some rate \<Rightarrow> merge_rates tm new_rates_map cs (rs(c \<mapsto> rate)) (dict_set c rate pd)))"

definition fetch_fresh_rates ::
  "(string list \<Rightarrow> string \<rightharpoonup> rat) \<Rightarrow> bool \<Rightarrow> int \<Rightarrow> rate_store \<Rightarrow> string list \<Rightarrow> rates
    \<Rightarrow> service_result" where
  "fetch_fresh_rates fetch lock_acquired now rows currencies rs =
     (let tm = ticker_map currencies
      in if tm = []
         then \<lparr>sr_rates = rs, sr_store = rows, sr_provider_log = [], sr_store_log = []\<rparr>
         else if \<not> lock_acquired
         then \<lparr>sr_rates = set_fallbacks currencies rs, sr_store = rows,
                sr_provider_log = [], sr_store_log = []\<rparr>
         else (let tickers_to_query = map snd tm;
                   new_rates_map = fetch tickers_to_query
               in case merge_rates tm new_rates_map currencies rs [] of
                    (rs', persistence_data) \<Rightarrow>
                      (let valid_persistence = filter (\<lambda>kv. 0 < snd kv) persistence_data;
                           rows' = (if valid_persistence = [] then rows
                                    else save_rates
                                           (map (\<lambda>kv. (fst kv, Some (Num (snd kv))))
                                              valid_persistence) now rows)
                       in \<lparr>sr_rates = rs', sr_store = rows',
                           sr_provider_log = [tickers_to_query], sr_store_log = []\<rparr>)))"

text \<open>\<open>MarketDataService.get_rates\<close>; \<open>fresh\<close> is \<open>source == "fresh"\<close>.\<close>

definition get_rates ::
  "(string list \<Rightarrow> string \<rightharpoonup> rat) \<Rightarrow> bool \<Rightarrow> int \<Rightarrow> rate_store \<Rightarrow> string list \<Rightarrow> bool
    \<Rightarrow> service_result" where
  "get_rates fetch lock_acquired now rows currencies fresh =
     (let rs = [''USD'' \<mapsto> 1];
          to_fetch = filter (\<lambda>c. c \<noteq> ''USD'') currencies
      in if to_fetch = []
         then \<lparr>sr_rates = rs, sr_store = rows, sr_provider_log = [], sr_store_log = []\<rparr>
         else if fresh then fetch_fresh_rates fetch lock_acquired now rows to_fetch rs
         else (case get_rates_from_db rows to_fetch rs [] of
                 (rs', seen) \<Rightarrow>
                   \<lparr>sr_rates = rs', sr_store = rows, sr_provider_log = [], sr_store_log = seen\<rparr>))"

text \<open>
  \<open>get_historical_rates_range\<close>. Dates are day numbers. \<open>db_cache\<close> is the nested
  dictionary \<open>{date: {currency: rate}}\<close>; \<open>cache_get\<close> is
  \<open>db_cache.get(d, {}).get(c)\<close>.
\<close>

type_synonym db_cache = "int \<rightharpoonup> rates"

definition cache_get :: "db_cache \<Rightarrow> int \<Rightarrow> string \<Rightarrow> rat option" where
  "cache_get cache d c = (case cache d of None \<Rightarrow> None | Some m \<Rightarrow> m c)"

definition cache_touch :: "db_cache \<Rightarrow> int \<Rightarrow> db_cache" where
  "cache_touch cache d = (case cache d of None \<Rightarrow> cache(d \<mapsto> Map.empty) | Some m \<Rightarrow> cache)"

definition cache_put :: "db_cache \<Rightarrow> int \<Rightarrow> string \<Rightarrow> rat \<Rightarrow> db_cache" where
  "cache_put cache d c v =
     cache(d \<mapsto> (case cache d of None \<Rightarrow> Map.empty | Some m \<Rightarrow> m)(c \<mapsto> v))"

text \<open>
  \<open>MarketDataPersistence.get_rates_series\<close>:
  \<open>currency IN currencies AND timestamp BETWEEN start AND stop ORDER BY timestamp\<close>.
\<close>

definition get_rates_series :: "rate_store \<Rightarrow> string list \<Rightarrow> int \<Rightarrow> int \<Rightarrow> rate_row list" where
  "get_rates_series rows currencies start stop =
     sort_key r_timestamp
       (filter (\<lambda>r. r_currency r \<in> set currencies \<and> start \<le> r_timestamp r \<and>
                     r_timestamp r \<le> stop) rows)"

definition cache_of_records :: "rate_row list \<Rightarrow> db_cache" where
  "cache_of_records db_records =
     fold (\<lambda>r cache. cache_put (cache_touch cache (date_of (r_timestamp r)))
                        (date_of (r_timestamp r)) (r_currency r) (sanitize_num (r_rate r)))
       db_records Map.empty"

definition needed_tickers :: "string list \<Rightarrow> (string \<times> string option) list" where
  "needed_tickers currencies =
     fold (\<lambda>c m. if c = ''USD'' then m else dict_set c (resolve_ticker c) m) currencies []"

definition missing_any :: "db_cache \<Rightarrow> int list \<Rightarrow> string list \<Rightarrow> bool" where
  "missing_any cache dates currencies =
     list_ex (\<lambda>d. list_ex (\<lambda>c. c \<noteq> ''USD'' \<and> cache_get cache d c = None) currencies) dates"

text \<open>
  \<open>list(set([t for t in needed_tickers.values() if t]))\<close>; the order of a set is not
  specified, the model takes the order of first occurrence.
\<close>

definition unique_tickers :: "(string \<times> string option) list \<Rightarrow> string list" where
  "unique_tickers needed =
     remdups (concat (map (\<lambda>kv. case snd kv of None \<Rightarrow> [] | Some t \<Rightarrow> if t = [] then [] else [t])
                        needed))"

text \<open>
  The provider's historical answer after \<open>raw_df["Close"].ffill()\<close>: rows of a
  timestamp and the values by ticker. One row of \<open>closes.iterrows()\<close> updates the cache
  and the list \<open>records_to_save\<close>.
\<close>

type_synonym frame = "(int \<times> (string \<rightharpoonup> py_num)) list"

definition absorb_value ::
  "int \<Rightarrow> (string \<rightharpoonup> py_num) \<Rightarrow> string \<times> string option \<Rightarrow> db_cache \<times> hist_record list
    \<Rightarrow> db_cache \<times> hist_record list" where
  "absorb_value ts vals kv acc =
     (case snd kv of
        None \<Rightarrow> acc
      | Some ticker \<Rightarrow>
          if ticker = [] then acc
          else (case vals ticker of
                  None \<Rightarrow> acc
                | Some val \<Rightarrow>
                    (let rate = sanitize_num val
                     in if rate \<noteq> 0
                        then (cache_put (fst acc) (date_of ts) (fst kv) rate,
                              snd acc @ [\<lparr>h_currency = fst kv, h_rate = Some (Num rate),
                                          h_timestamp = ts\<rparr>])
                        else acc)))"

definition absorb_row ::
  "(string \<times> string option) list \<Rightarrow> int \<times> (string \<rightharpoonup> py_num) \<Rightarrow> db_cache \<times> hist_record list
    \<Rightarrow> db_cache \<times> hist_record list" where
  "absorb_row needed row acc =
     fold (absorb_value (fst row) (snd row)) needed
       (cache_touch (fst acc) (date_of (fst row)), snd acc)"

text \<open>
  Step 3: the value for one date and currency, looking back up to seven days, and the
  rate map of one date, which starts as \<open>{"USD": Decimal("1.0")}\<close>.
\<close>

definition lookup_back :: "db_cache \<Rightarrow> int \<Rightarrow> string \<Rightarrow> rat option" where
  "lookup_back cache d c =
     (case cache_get cache d c of
        Some v \<Rightarrow> Some v
      | None \<Rightarrow>
          (case List.find (\<lambda>i. cache_get cache (d - i) c \<noteq> None) [1..7] of
             None \<Rightarrow> None
           | Some i \<Rightarrow> cache_get cache (d - i) c))"

definition rates_for_date :: "db_cache \<Rightarrow> string list \<Rightarrow> int \<Rightarrow> rates" where
  "rates_for_date cache currencies d =
     fold (\<lambda>c m. if c = ''USD'' then m
                  else m(c \<mapsto> (case lookup_back cache d c of None \<Rightarrow> 0 | Some v \<Rightarrow> v)))
       currencies [''USD'' \<mapsto> 1]"

record range_result =
  rr_result :: "int \<rightharpoonup> rates"
  rr_store :: rate_store
  rr_provider_log :: "string list list"
  rr_store_log :: "string list list"

text \<open>
  \<open>fetch\<close> is \<open>fetch_historical_rates\<close> with its ticker list, start and end date; an
  empty frame is \<open>raw_df.empty\<close>.
\<close>

definition get_historical_rates_range ::
  "(string list \<Rightarrow> int \<Rightarrow> int \<Rightarrow> frame) \<Rightarrow> rate_store \<Rightarrow> int list \<Rightarrow> string list \<Rightarrow> range_result" where
  "get_historical_rates_range fetch rows dates currencies =
     (case dates of
        [] \<Rightarrow> \<lparr>rr_result = Map.empty, rr_store = rows, rr_provider_log = [], rr_store_log = []\<rparr>
      | d0 # ds \<Rightarrow>
          if currencies = []
          then \<lparr>rr_result = Map.empty, rr_store = rows, rr_provider_log = [], rr_store_log = []\<rparr>
          else
            (let start_date = fold min ds d0;
                 end_date = fold max ds d0;
                 db_records = get_rates_series rows currencies (midnight (start_date - 7))
                                (midnight end_date + 86399);
                 cache0 = cache_of_records db_records;
                 needed = needed_tickers currencies;
                 tickers = unique_tickers needed;
                 asked = missing_any cache0 dates currencies \<and> tickers \<noteq> [];
                 raw_df = (if asked then fetch tickers (start_date - 7) (end_date + 1) else []);
                 fetched = fold (absorb_row needed) raw_df (cache0, []);
                 rows' = (if snd fetched = [] then rows
                          else fst (save_history_batch (snd fetched) True rows))
             in \<lparr>rr_result = fold (\<lambda>d res. res(d \<mapsto> rates_for_date (fst fetched) currencies d))
                                dates Map.empty,
                  rr_store = rows',
                  rr_provider_log = (if asked then [tickers] else []),
                  rr_store_log = [currencies]\<rparr>))"

text \<open>
  Reading one rate out of a range result, and two quote providers used in examples: one
  that never has data and one that quotes EUR only.
\<close>

definition range_rate :: "range_result \<Rightarrow> int \<Rightarrow> string \<Rightarrow> rat option" where
  "range_rate res d c = (case rr_result res d of None \<Rightarrow> None | Some m \<Rightarrow> m c)"

definition no_history :: "string list \<Rightarrow> int \<Rightarrow> int \<Rightarrow> frame" where
  "no_history tickers start stop = []"

definition eur_quote :: "string list \<Rightarrow> string \<rightharpoonup> rat" where
  "eur_quote tickers = (if ''EURUSD=X'' \<in> set tickers then [''EURUSD=X'' \<mapsto> 11 / 10] else Map.empty)"

section \<open>Money-weighted return (math_utils.py, services/portfolio/performance.py)\<close>
































section \<open>Properties\<close>

subsection \<open>Ticker resolution table\<close>

text \<open>
  C2 (as stated, refuted): the claim lists \<open>resolve("AAPL") = "AAPL"\<close>, but a four-letter
  symbol without suffix or dot that is not in the crypto set falls through to the last
  branch and gets the generic \<open>-USD\<close> suffix.
\<close>

theorem resolve_ticker_AAPL_counterexample:
  "resolve_ticker ''AAPL'' \<noteq> Some ''AAPL''"
  by (simp add: resolve_ticker_def upper_def upper_char_def endswith_def CRYPTO_SET_def)

text \<open>
  C2 (amended): \<open>resolve("EUR") = "EURUSD=X"\<close>, \<open>resolve("BTC") = "BTC-USD"\<close>,
  \<open>resolve("AAPL") = "AAPL-USD"\<close> and \<open>resolve("USD") = null\<close>.
\<close>

theorem resolve_ticker_table:
  "resolve_ticker ''EUR'' = Some ''EURUSD=X'' \<and>
   resolve_ticker ''BTC'' = Some ''BTC-USD'' \<and>
   resolve_ticker ''AAPL'' = Some ''AAPL-USD'' \<and>
   resolve_ticker ''USD'' = None"
  by (simp add: resolve_ticker_def upper_def upper_char_def endswith_def CRYPTO_SET_def)

subsection \<open>Simple time-weighted return\<close>

text \<open>
  C6 (as stated, refuted): with a nonzero start value whose net flow cancels it
  (\<open>start_value + net_flow = 0\<close>) the function returns 0, not
  \<open>(end_value - net_flow) / start_value - 1\<close>.
\<close>

theorem calculate_twr_counterexample:
  "calculate_twr 100 50 (- 100) \<noteq> (50 - (- 100)) / 100 - 1"
  by (simp add: calculate_twr_def)

text \<open>
  C6 (amended): the simple time-weighted return equals
  \<open>(end_value - net_flow) / start_value - 1\<close> whenever \<open>start_value\<close> is nonzero and
  \<open>start_value + net_flow\<close> is nonzero, and equals 0 when \<open>start_value\<close> is zero or
  \<open>start_value + net_flow\<close> is zero.
\<close>

theorem calculate_twr_spec:
  "(start_value \<noteq> 0 \<and> start_value + net_flow \<noteq> 0 \<longrightarrow>
      calculate_twr start_value end_value net_flow
        = (end_value - net_flow) / start_value - 1) \<and>
   (start_value = 0 \<or> start_value + net_flow = 0 \<longrightarrow>
      calculate_twr start_value end_value net_flow = 0)"
  by (simp add: calculate_twr_def)

theorem calculate_twr_spec_witness:
  "calculate_twr 100 121 11 = 1 / 10 \<and> calculate_twr 0 50 7 = 0 \<and>
   calculate_twr 100 50 (- 100) = 0"
  using calculate_twr_spec [of 100 11 121] calculate_twr_spec [of 0 7 50]
    calculate_twr_spec [of 100 "- 100" 50]
  by simp

subsection \<open>Unit price of an asset\<close>

lemma find_rate_absent:
  assumes "\<forall>alt \<in> set (symbol # alternatives symbol). rate_present rates alt = None"
  shows "find_rate rates symbol = None"
proof -
  have "List.find (\<lambda>alt. rate_present rates alt \<noteq> None) (alternatives symbol) = None"
    using assms by (simp add: find_None_iff)
  with assms show ?thesis by (simp add: find_rate_def)
qed

text \<open>
  C5 (as stated, refuted): an asset without ticker, bought at 10 USD, priced in EUR with
  a rate map that has no entry for EUR under any alias: the target rate defaults to 1.0
  and the price is 10, not zero.
\<close>

theorem get_price_missing_rate_counterexample:
  "get_price \<lparr>a_id = 1, ticker_symbol = None, quantity = 2, purchase_price = Some 10,
               currency = Some ''USD''\<rparr>
     [''USD'' \<mapsto> Some 1] Map.empty ''EUR'' \<noteq> Inr 0"
  by (simp add: get_price_def get_rate_safe_def find_rate_def rate_present_def
      alternatives_def replace_with_empty_def price_in_usd_def purchase_price_in_usd_def
      dec_div_def)

text \<open>
  C5 (amended): for every asset and every rate map, \<open>get_price\<close> never raises; the unit
  price equals the asset's pivot-denominated price divided by the target currency's pivot
  rate as found by the alias lookup when that rate is nonzero; it is zero, without any
  division, when that rate is zero; and when the target currency is absent from the rate
  map under all alias variants the rate is taken to be 1.0, so the price is the
  pivot-denominated price itself.
\<close>

theorem get_price_spec:
  "(\<exists>p. get_price a rates manual_prices main_currency = Inr p) \<and>
   (\<forall>r. find_rate rates main_currency = Some r \<and> r \<noteq> 0 \<longrightarrow>
      get_price a rates manual_prices main_currency
        = Inr (price_in_usd a rates manual_prices / r)) \<and>
   (find_rate rates main_currency = Some 0 \<longrightarrow>
      get_price a rates manual_prices main_currency = Inr 0) \<and>
   ((\<forall>alt \<in> set (main_currency # alternatives main_currency). rate_present rates alt = None) \<longrightarrow>
      get_price a rates manual_prices main_currency = Inr (price_in_usd a rates manual_prices))"
proof (intro conjI allI impI)
  show "\<exists>p. get_price a rates manual_prices main_currency = Inr p"
    by (simp add: get_price_def dec_div_def Let_def)
next
  fix r assume "find_rate rates main_currency = Some r \<and> r \<noteq> 0"
  then show "get_price a rates manual_prices main_currency
      = Inr (price_in_usd a rates manual_prices / r)"
    by (simp add: get_price_def get_rate_safe_def dec_div_def)
next
  assume "find_rate rates main_currency = Some 0"
  then show "get_price a rates manual_prices main_currency = Inr 0"
    by (simp add: get_price_def get_rate_safe_def)
next
  assume "\<forall>alt \<in> set (main_currency # alternatives main_currency). rate_present rates alt = None"
  then have "find_rate rates main_currency = None" by (rule find_rate_absent)
  then show "get_price a rates manual_prices main_currency
      = Inr (price_in_usd a rates manual_prices)"
    by (simp add: get_price_def get_rate_safe_def dec_div_def)
qed

theorem get_price_spec_witness:
  "get_price \<lparr>a_id = 1, ticker_symbol = None, quantity = 2, purchase_price = Some 10,
               currency = Some ''USD''\<rparr>
     [''USD'' \<mapsto> Some 1, ''EUR=X'' \<mapsto> Some 2] Map.empty ''EUR'' = Inr 5 \<and>
   get_price \<lparr>a_id = 1, ticker_symbol = None, quantity = 2, purchase_price = Some 10,
               currency = Some ''USD''\<rparr>
     [''USD'' \<mapsto> Some 1, ''EUR'' \<mapsto> Some 0] Map.empty ''EUR'' = Inr 0 \<and>
   get_price \<lparr>a_id = 1, ticker_symbol = None, quantity = 2, purchase_price = Some 10,
               currency = Some ''USD''\<rparr>
     [''USD'' \<mapsto> Some 1] Map.empty ''EUR'' = Inr 10"
proof -
  let ?a = "\<lparr>a_id = 1, ticker_symbol = None, quantity = 2, purchase_price = Some 10,
             currency = Some ''USD''\<rparr>"
  let ?m = "Map.empty :: int \<rightharpoonup> rat \<times> string"
  let ?r1 = "[''USD'' \<mapsto> Some 1, ''EUR=X'' \<mapsto> Some 2] :: rate_map"
  let ?r2 = "[''USD'' \<mapsto> Some 1, ''EUR'' \<mapsto> Some 0] :: rate_map"
  let ?r3 = "[''USD'' \<mapsto> Some 1] :: rate_map"
  have f1: "find_rate ?r1 ''EUR'' = Some 2 \<and> (2::rat) \<noteq> 0"
    by (simp add: find_rate_def rate_present_def alternatives_def replace_with_empty_def)
  have f2: "find_rate ?r2 ''EUR'' = Some 0"
    by (simp add: find_rate_def rate_present_def)
  have f3: "\<forall>alt \<in> set (''EUR'' # alternatives ''EUR''). rate_present ?r3 alt = None"
    by (simp add: rate_present_def alternatives_def replace_with_empty_def)
  have p1: "price_in_usd ?a ?r1 ?m = 10"
    by (simp add: price_in_usd_def purchase_price_in_usd_def get_rate_safe_def find_rate_def
        rate_present_def)
  have p3: "price_in_usd ?a ?r3 ?m = 10"
    by (simp add: price_in_usd_def purchase_price_in_usd_def get_rate_safe_def find_rate_def
        rate_present_def)
  have "get_price ?a ?r1 ?m ''EUR'' = Inr (price_in_usd ?a ?r1 ?m / 2)"
    using get_price_spec [of ?a ?r1 ?m "''EUR''"] f1 by blast
  moreover have "get_price ?a ?r2 ?m ''EUR'' = Inr 0"
    using get_price_spec [of ?a ?r2 ?m "''EUR''"] f2 by blast
  moreover have "get_price ?a ?r3 ?m ''EUR'' = Inr (price_in_usd ?a ?r3 ?m)"
    using get_price_spec [of ?a ?r3 ?m "''EUR''"] f3 by blast
  ultimately show ?thesis
    by (simp only: p1 p3) simp
qed

subsection \<open>Reconstruction of historical quantities\<close>

lemma floor_plus_half: "\<lfloor>(of_int m :: rat) + 1 / 2\<rfloor> = m"
  by (simp add: floor_eq_iff)

lemma sanitize_decimal_of_int: "sanitize_decimal (of_int n) = of_int n"
proof -
  have e: "(of_int n :: rat) * 10 ^ 8 = of_int (n * 10 ^ 8)" by simp
  have m: "- (of_int (n * 10 ^ 8) :: rat) = of_int (- (n * 10 ^ 8))" by simp
  show ?thesis
    unfolding sanitize_decimal_def Let_def e m floor_plus_half by simp
qed

lemma sanitize_decimal_exact: "sanitize_decimal (of_int n / 10 ^ 8) = of_int n / 10 ^ 8"
proof -
  have e: "(of_int n / 10 ^ 8 :: rat) * 10 ^ 8 = of_int n" by simp
  have m: "- (of_int n :: rat) = of_int (- n)" by simp
  show ?thesis
    unfolding sanitize_decimal_def Let_def e m floor_plus_half by simp
qed

lemma sanitize_decimal_numeral [simp]: "sanitize_decimal (numeral k) = numeral k"
  using sanitize_decimal_of_int [of "numeral k"] by simp

lemma sanitize_decimal_one [simp]: "sanitize_decimal 1 = 1"
  using sanitize_decimal_of_int [of 1] by simp

lemma sanitize_decimal_zero [simp]: "sanitize_decimal 0 = 0"
  using sanitize_decimal_of_int [of 0] by simp


lemma revert_tx_adjust:
  "t_asset_id tx \<in> dom qs \<Longrightarrow> revert_tx qs tx = Inr (adjust qs [tx])"
  by (auto simp: revert_tx_def adjust_def net_reversal_def reversal_def Let_def fun_eq_iff
      option.map_ident split: option.splits)

lemma dom_adjust [simp]: "dom (adjust qs txs) = dom qs"
  by (auto simp: adjust_def dom_def)

lemma adjust_Nil [simp]: "adjust qs [] = qs"
  by (simp add: adjust_def net_reversal_def fun_eq_iff option.map_ident)

lemma adjust_append: "adjust (adjust qs xs) ys = adjust qs (xs @ ys)"
  by (auto simp: adjust_def net_reversal_def fun_eq_iff option.map_comp o_def add.assoc
      intro!: option.map_cong)

lemma revert_all_adjust:
  "\<forall>tx \<in> set txs. t_asset_id tx \<in> dom qs \<Longrightarrow> revert_all qs txs = Inr (adjust qs txs)"
proof (induction txs arbitrary: qs)
  case Nil
  then show ?case by simp
next
  case (Cons tx txs)
  have "revert_tx qs tx = Inr (adjust qs [tx])"
    using Cons.prems by (simp add: revert_tx_adjust)
  moreover have "revert_all (adjust qs [tx]) txs = Inr (adjust (adjust qs [tx]) txs)"
    using Cons.prems by (intro Cons.IH) simp
  ultimately show ?case by (simp add: adjust_append)
qed




lemma dom_current_quantities: "dom (current_quantities assets) = set (map a_id assets)"
proof -
  have "dom (fold (\<lambda>a m. m(a_id a \<mapsto> sanitize_decimal (quantity a))) assets m0)
        = dom m0 \<union> set (map a_id assets)" for m0 :: quantities
    by (induction assets arbitrary: m0) auto
  then show ?thesis by (simp add: current_quantities_def)
qed



subsection \<open>The backward sweep of get_history\<close>

lemma net_reversal_insort:
  "net_reversal a (insort_key f x xs) = net_reversal a (x # xs)"
  by (induction xs) (auto simp: net_reversal_def)

lemma net_reversal_sort_key: "net_reversal a (sort_key f xs) = net_reversal a xs"
proof (induction xs)
  case Nil
  then show ?case by simp
next
  case (Cons x xs)
  have "net_reversal a (sort_key f (x # xs)) = net_reversal a (x # sort_key f xs)"
    by (simp add: net_reversal_insort)
  also have "\<dots> = net_reversal a (x # xs)"
    using Cons.IH by (simp add: net_reversal_def)
  finally show ?case .
qed

lemma adjust_sort_key: "adjust qs (sort_key f xs) = adjust qs xs"
  by (simp add: adjust_def net_reversal_sort_key)

lemma advance_adjust:
  "\<forall>tx \<in> set txs. t_asset_id tx \<in> dom qs \<Longrightarrow>
   advance d txs qs
     = Inr (dropWhile (\<lambda>tx. d < date_of (t_date tx)) txs,
            adjust qs (takeWhile (\<lambda>tx. d < date_of (t_date tx)) txs))"
proof (induction txs arbitrary: qs)
  case Nil
  then show ?case by simp
next
  case (Cons tx txs)
  show ?case
  proof (cases "d < date_of (t_date tx)")
    case True
    have r: "revert_tx qs tx = Inr (adjust qs [tx])"
      using Cons.prems by (simp add: revert_tx_adjust)
    have "advance d txs (adjust qs [tx])
        = Inr (dropWhile (\<lambda>tx. d < date_of (t_date tx)) txs,
               adjust (adjust qs [tx]) (takeWhile (\<lambda>tx. d < date_of (t_date tx)) txs))"
      using Cons.prems by (intro Cons.IH) simp
    with r True show ?thesis by (simp add: adjust_append)
  next
    case False
    then show ?thesis by simp
  qed
qed

lemma date_of_mono: "s \<le> t \<Longrightarrow> date_of s \<le> date_of t"
  by (simp add: date_of_def zdiv_mono1)

lemma filter_dropWhile_desc:
  "sorted (map (\<lambda>tx. - t_date tx) txs) \<Longrightarrow>
   filter (\<lambda>tx. d < date_of (t_date tx)) (dropWhile (\<lambda>tx. d < date_of (t_date tx)) txs) = []"
proof (induction txs)
  case Nil
  then show ?case by simp
next
  case (Cons tx txs)
  show ?case
  proof (cases "d < date_of (t_date tx)")
    case True
    with Cons show ?thesis by simp
  next
    case False
    have "\<forall>t \<in> set txs. t_date t \<le> t_date tx" using Cons.prems by auto
    then have "\<forall>t \<in> set txs. \<not> d < date_of (t_date t)"
      using False date_of_mono by fastforce
    with False show ?thesis by (simp add: filter_empty_conv)
  qed
qed

lemma filter_eq_takeWhile_desc:
  assumes "sorted (map (\<lambda>tx. - t_date tx) txs)"
  shows "filter (\<lambda>tx. d < date_of (t_date tx)) txs = takeWhile (\<lambda>tx. d < date_of (t_date tx)) txs"
proof -
  let ?P = "\<lambda>tx. d < date_of (t_date tx)"
  have "filter ?P txs = filter ?P (takeWhile ?P txs @ dropWhile ?P txs)" by simp
  also have "\<dots> = filter ?P (takeWhile ?P txs) @ filter ?P (dropWhile ?P txs)"
    by (simp only: filter_append)
  also have "\<dots> = takeWhile ?P txs"
    using filter_dropWhile_desc [OF assms, of d]
    by (simp add: filter_id_conv) (meson set_takeWhileD)
  finally show ?thesis .
qed

lemma sorted_dropWhile_map:
  "sorted (map f xs) \<Longrightarrow> sorted (map f (dropWhile P xs))"
  by (induction xs) auto

lemma sweep_adjust:
  assumes "sorted (map (\<lambda>tx. - t_date tx) txs)"
    and "sorted (rev ds)"
    and "\<forall>tx \<in> set txs. t_asset_id tx \<in> dom qs"
  shows "\<exists>daily'. sweep ds txs qs daily = Inr daily' \<and>
           (\<forall>d \<in> set ds. daily' d
               = Some (adjust qs (filter (\<lambda>tx. d < date_of (t_date tx)) txs))) \<and>
           (\<forall>d. d \<notin> set ds \<longrightarrow> daily' d = daily d)"
  using assms
proof (induction ds arbitrary: txs qs daily)
  case Nil
  then show ?case by simp
next
  case (Cons d ds)
  let ?P = "\<lambda>tx. d < date_of (t_date tx)"
  let ?R = "dropWhile ?P txs"
  let ?T = "takeWhile ?P txs"
  let ?qs = "adjust qs ?T"
  have adv: "advance d txs qs = Inr (?R, ?qs)"
    using Cons.prems(3) by (rule advance_adjust)
  have sR: "sorted (map (\<lambda>tx. - t_date tx) ?R)"
    using Cons.prems(1) by (rule sorted_dropWhile_map)
  have sds: "sorted (rev ds)" and le: "\<forall>d' \<in> set ds. d' \<le> d"
    using Cons.prems(2) by (auto simp: sorted_append)
  have domR: "\<forall>tx \<in> set ?R. t_asset_id tx \<in> dom ?qs"
    using Cons.prems(3) by (auto dest: set_dropWhileD)
  obtain daily' where sw: "sweep ds ?R ?qs (daily(d \<mapsto> ?qs)) = Inr daily'"
    and on: "\<forall>d' \<in> set ds. daily' d'
               = Some (adjust ?qs (filter (\<lambda>tx. d' < date_of (t_date tx)) ?R))"
    and off: "\<forall>d'. d' \<notin> set ds \<longrightarrow> daily' d' = (daily(d \<mapsto> ?qs)) d'"
    using Cons.IH [OF sR sds domR, of "daily(d \<mapsto> ?qs)"] by blast
  have TF: "filter ?P txs = ?T"
    using Cons.prems(1) by (rule filter_eq_takeWhile_desc)
  have key: "adjust ?qs (filter (\<lambda>tx. d' < date_of (t_date tx)) ?R)
           = adjust qs (filter (\<lambda>tx. d' < date_of (t_date tx)) txs)" if "d' \<le> d" for d'
  proof -
    let ?Q = "\<lambda>tx. d' < date_of (t_date tx)"
    have "filter ?Q ?T = ?T"
      using that by (auto simp: filter_id_conv dest!: set_takeWhileD)
    then have "filter ?Q txs = ?T @ filter ?Q ?R"
      by (metis filter_append takeWhile_dropWhile_id)
    then show ?thesis by (simp add: adjust_append)
  qed
  have "daily' d' = Some (adjust qs (filter (\<lambda>tx. d' < date_of (t_date tx)) txs))"
    if "d' \<in> set (d # ds)" for d'
  proof (cases "d' \<in> set ds")
    case True
    with on le key show ?thesis by simp
  next
    case False
    with that have "d' = d" by simp
    with False off TF show ?thesis by simp
  qed
  moreover have "daily' d' = daily d'" if "d' \<notin> set (d # ds)" for d'
    using that off by simp
  ultimately show ?case using adv sw by simp
qed

lemma midnight_less:
  assumes "d < date_of ts"
  shows "midnight d < ts"
proof -
  have "d + 1 \<le> ts div 86400" using assms by (simp add: date_of_def)
  then have "86400 * (d + 1) \<le> 86400 * (ts div 86400)" by simp
  moreover have "86400 * (ts div 86400) \<le> ts" by simp
  ultimately show ?thesis by (simp add: midnight_def)
qed


text \<open>
  C8 (the code does not do what the claim says): one asset holding 10 units and one BUY
  of 3 units at 10:00 on day 5. The single-date reconstruction at day 5 selects the
  transaction (its timestamp is after midnight of day 5) and reports 7; the sweep
  compares calendar dates (\<open>tx.date.date() > d\<close>), does not revert it for day 5, and
  reports 10.
\<close>

theorem daily_quantities_differs_on_same_day:
  "daily_quantity_in (daily_quantities
     [\<lparr>a_id = 1, ticker_symbol = None, quantity = 10, purchase_price = None, currency = None\<rparr>]
     [\<lparr>t_asset_id = 1, t_type = ''BUY'', t_date = 468000, quantity_change = 3\<rparr>] 5 [5]) 5 1
     = Some 10 \<and>
   quantity_in (calculate_historical_quantities
     [\<lparr>a_id = 1, ticker_symbol = None, quantity = 10, purchase_price = None, currency = None\<rparr>]
     [\<lparr>t_asset_id = 1, t_type = ''BUY'', t_date = 468000, quantity_change = 3\<rparr>] 5) 1
     = Some 7"
  by (simp add: daily_quantities_def daily_quantity_in_def quantity_in_def
      calculate_historical_quantities_def txs_after_def current_quantities_def midnight_def
      date_of_def revert_tx_def)

text \<open>
  Transactions during a listed day are the only difference between the two computations:
  for every date list whose dates are not before the start date, and every ledger in
  which no transaction is timestamped later than midnight on the day of one of the listed
  dates, the backward sweep succeeds and assigns to each listed date exactly the
  quantities that the single-date reconstruction computes for that date.
\<close>

lemma daily_quantities_eq_single:
  assumes "\<forall>d \<in> set dates. start_date \<le> d"
    and "\<forall>tx \<in> set ledger. \<forall>d \<in> set dates. midnight d < t_date tx \<longrightarrow> d < date_of (t_date tx)"
  shows "\<exists>daily. daily_quantities assets ledger start_date dates = Inr daily \<and>
           (\<forall>d \<in> set dates. \<exists>hq. calculate_historical_quantities assets ledger d = Inr hq \<and>
                                    daily d = Some hq)"
proof -
  let ?cq = "current_quantities assets"
  let ?F = "\<lambda>tx. t_asset_id tx \<in> set (map a_id assets) \<and> midnight start_date < t_date tx"
  let ?k = "\<lambda>tx. - t_date tx"
  let ?all = "sort_key ?k (filter ?F ledger)"
  have s1: "sorted (map ?k ?all)" by (rule sorted_sort_key)
  have s2: "sorted (rev (rev (sort dates)))" by simp
  have s3: "\<forall>tx \<in> set ?all. t_asset_id tx \<in> dom ?cq"
    by (simp add: dom_current_quantities)
  obtain daily where sw: "sweep (rev (sort dates)) ?all ?cq Map.empty = Inr daily"
    and on: "\<forall>d \<in> set (rev (sort dates)). daily d
               = Some (adjust ?cq (filter (\<lambda>tx. d < date_of (t_date tx)) ?all))"
    using sweep_adjust [OF s1 s2 s3, of Map.empty] by blast
  have dq: "daily_quantities assets ledger start_date dates = Inr daily"
    using sw by (simp add: daily_quantities_def)
  have single: "calculate_historical_quantities assets ledger d
                  = Inr (adjust ?cq (txs_after assets ledger d))" for d
  proof (cases "assets = []")
    case True
    then show ?thesis by (simp add: calculate_historical_quantities_def txs_after_def)
  next
    case False
    have "\<forall>tx \<in> set (txs_after assets ledger d). t_asset_id tx \<in> dom ?cq"
      by (simp add: txs_after_def dom_current_quantities)
    from revert_all_adjust [OF this] False show ?thesis
      by (simp add: calculate_historical_quantities_def)
  qed
  have same: "adjust ?cq (filter (\<lambda>tx. d < date_of (t_date tx)) ?all)
            = adjust ?cq (txs_after assets ledger d)" if "d \<in> set dates" for d
  proof -
    have sd: "start_date \<le> d" using assms(1) that by blast
    have "filter (\<lambda>tx. d < date_of (t_date tx)) (filter ?F ledger) = txs_after assets ledger d"
      unfolding txs_after_def filter_filter
    proof (rule filter_cong [OF refl])
      fix tx assume tx: "tx \<in> set ledger"
      have "midnight start_date \<le> midnight d" using sd by (simp add: midnight_def)
      moreover have "midnight d < t_date tx \<Longrightarrow> d < date_of (t_date tx)"
        using assms(2) tx that by blast
      moreover have "d < date_of (t_date tx) \<Longrightarrow> midnight d < t_date tx"
        by (rule midnight_less)
      ultimately show "(?F tx \<and> d < date_of (t_date tx))
          = (t_asset_id tx \<in> set (map a_id assets) \<and> midnight d < t_date tx)"
        by auto
    qed
    then show ?thesis by (simp add: filter_sort adjust_sort_key)
  qed
  show ?thesis using dq on single same by auto
qed


lemma daily_quantities_eq_single_example:
  "daily_quantity_in (daily_quantities
     [\<lparr>a_id = 1, ticker_symbol = None, quantity = 10, purchase_price = None, currency = None\<rparr>]
     [\<lparr>t_asset_id = 1, t_type = ''BUY'', t_date = 604800, quantity_change = 3\<rparr>,
      \<lparr>t_asset_id = 1, t_type = ''SELL'', t_date = 518400, quantity_change = 1\<rparr>]
     5 [5, 7, 6]) 5 1 = Some 8"
proof -
  let ?assets = "[\<lparr>a_id = 1, ticker_symbol = None, quantity = 10, purchase_price = None,
                   currency = None\<rparr>]"
  let ?ledger = "[\<lparr>t_asset_id = 1, t_type = ''BUY'', t_date = 604800, quantity_change = 3\<rparr>,
                  \<lparr>t_asset_id = 1, t_type = ''SELL'', t_date = 518400, quantity_change = 1\<rparr>]"
  have h1: "\<forall>d \<in> set [5, 7, 6 :: int]. 5 \<le> d" by simp
  have h2: "\<forall>tx \<in> set ?ledger. \<forall>d \<in> set [5, 7, 6].
              midnight d < t_date tx \<longrightarrow> d < date_of (t_date tx)"
    by (simp add: midnight_def date_of_def)
  obtain daily hq where d: "daily_quantities ?assets ?ledger 5 [5, 7, 6] = Inr daily"
    and s: "calculate_historical_quantities ?assets ?ledger 5 = Inr hq" "daily 5 = Some hq"
    using daily_quantities_eq_single [OF h1 h2, of ?assets] by auto
  have "calculate_historical_quantities ?assets ?ledger 5 = Inr [1 \<mapsto> 8]"
    by (simp add: calculate_historical_quantities_def txs_after_def current_quantities_def
        midnight_def revert_tx_def)
  with s have "hq = [1 \<mapsto> 8]" by simp
  then have "hq 1 = Some 8" by simp
  with d s show ?thesis by (simp only: daily_quantity_in_def sum.case option.case)
qed

subsection \<open>Compaction\<close>

lemma deleted_by_mono:
  "set rows' \<subseteq> set rows \<Longrightarrow> deleted_by b c rows' r \<Longrightarrow> deleted_by b c rows r"
  unfolding deleted_by_def list_ex_iff by blast

lemma compact_tier_subset: "set (fst (compact_tier b c rows)) \<subseteq> set rows"
  by (simp add: compact_tier_def)

lemma compact_tier_stable:
  assumes "set rows' \<subseteq> set (fst (compact_tier b c rows))"
  shows "compact_tier b c rows' = (rows', 0)"
proof -
  have "\<not> deleted_by b c rows' r" if "r \<in> set rows'" for r
  proof
    assume "deleted_by b c rows' r"
    moreover have "set rows' \<subseteq> set rows" using assms compact_tier_subset by blast
    ultimately have "deleted_by b c rows r" by (rule deleted_by_mono [rotated])
    moreover have "\<not> deleted_by b c rows r"
      using assms that by (auto simp: compact_tier_def)
    ultimately show False by contradiction
  qed
  then show ?thesis by (simp add: compact_tier_def filter_empty_conv)
qed

lemma run_tiers_idempotent:
  "run_tiers b15 b1h b1d b1w cs (fst (run_tiers b15 b1h b1d b1w cs rows))
     = (fst (run_tiers b15 b1h b1d b1w cs rows), 0, 0, 0, 0)"
proof -
  obtain c15 c1h c1d c1w where cs: "cs = (c15, c1h, c1d, c1w)" by (cases cs) auto
  define s1 where "s1 = fst (compact_tier b15 c15 rows)"
  define s2 where "s2 = fst (compact_tier b1h c1h s1)"
  define s3 where "s3 = fst (compact_tier b1d c1d s2)"
  define s4 where "s4 = fst (compact_tier b1w c1w s3)"
  have r: "fst (run_tiers b15 b1h b1d b1w cs rows) = s4"
    by (simp add: run_tiers_def cs s1_def s2_def s3_def s4_def split: prod.splits)
  have "set s4 \<subseteq> set s3" unfolding s4_def by (rule compact_tier_subset)
  moreover have "set s3 \<subseteq> set s2" unfolding s3_def by (rule compact_tier_subset)
  moreover have "set s2 \<subseteq> set s1" unfolding s2_def by (rule compact_tier_subset)
  ultimately have sub: "set s4 \<subseteq> set s1" "set s4 \<subseteq> set s2" "set s4 \<subseteq> set s3" by auto
  have t1: "compact_tier b15 c15 s4 = (s4, 0)"
    using sub(1) unfolding s1_def by (rule compact_tier_stable)
  have t2: "compact_tier b1h c1h s4 = (s4, 0)"
    using sub(2) unfolding s2_def by (rule compact_tier_stable)
  have t3: "compact_tier b1d c1d s4 = (s4, 0)"
    using sub(3) unfolding s3_def by (rule compact_tier_stable)
  have "set s4 \<subseteq> set (fst (compact_tier b1w c1w s3))" by (simp add: s4_def)
  then have t4: "compact_tier b1w c1w s4 = (s4, 0)"
    by (rule compact_tier_stable)
  show ?thesis unfolding r by (simp add: run_tiers_def cs t1 t2 t3 t4)
qed

text \<open>
  C9: for every table, dialect, configuration and value of \<open>utc_now()\<close> (so for fixed
  cutoffs), running the four-tier compaction on the table that a first run has produced
  deletes nothing in any tier and returns the same table, hence the same row count.
\<close>

theorem compaction_idempotent:
  "execute dia now agent_config (fst (execute dia now agent_config rows))
     = (fst (execute dia now agent_config rows), 0, 0, 0, 0)"
  by (cases dia) (simp_all add: execute_def run_tiers_idempotent)

theorem compaction_idempotent_witness:
  "execute PostgreSQL 100000000 Map.empty
     [\<lparr>r_id = 1, r_currency = ''EUR'', r_rate = Num 1, r_timestamp = 100\<rparr>,
      \<lparr>r_id = 3, r_currency = ''EUR'', r_rate = Num 3, r_timestamp = 99999990\<rparr>]
   = ([\<lparr>r_id = 1, r_currency = ''EUR'', r_rate = Num 1, r_timestamp = 100\<rparr>,
       \<lparr>r_id = 3, r_currency = ''EUR'', r_rate = Num 3, r_timestamp = 99999990\<rparr>],
      0, 0, 0, 0)"
proof -
  let ?rows = "[\<lparr>r_id = 1, r_currency = ''EUR'', r_rate = Num 1, r_timestamp = 100\<rparr>,
                \<lparr>r_id = 2, r_currency = ''EUR'', r_rate = Num 2, r_timestamp = 200\<rparr>,
                \<lparr>r_id = 3, r_currency = ''EUR'', r_rate = Num 3, r_timestamp = 99999990\<rparr>]"
  have first: "execute PostgreSQL 100000000 Map.empty ?rows
    = ([\<lparr>r_id = 1, r_currency = ''EUR'', r_rate = Num 1, r_timestamp = 100\<rparr>,
        \<lparr>r_id = 3, r_currency = ''EUR'', r_rate = Num 3, r_timestamp = 99999990\<rparr>],
       1, 0, 0, 0)"
    by code_simp
  show ?thesis
    using compaction_idempotent [of PostgreSQL 100000000 Map.empty ?rows]
    by (simp only: first fst_conv)
qed

subsection \<open>The write boundary of the rate store\<close>


lemma insert_row_Inr:
  "insert_row rows (c, rate, ts) = Inr rows' \<Longrightarrow>
   \<not> key_exists rows c ts \<and>
   rows' = rows @ [\<lparr>r_id = next_id rows, r_currency = c, r_rate = rate, r_timestamp = ts\<rparr>]"
  by (cases "key_exists rows c ts") (simp_all add: insert_row_def)

lemma insert_rows_Cons_Inr:
  "insert_rows rows (x # xs) = Inr rows' \<Longrightarrow>
   \<exists>rows1. insert_row rows x = Inr rows1 \<and> insert_rows rows1 xs = Inr rows'"
  by (cases "insert_row rows x") simp_all

lemma insert_rows_prefix:
  "insert_rows rows xs = Inr rows' \<Longrightarrow> \<exists>new. rows' = rows @ new \<and> map row_data new = xs"
proof (induction xs arbitrary: rows)
  case Nil
  then show ?case by simp
next
  case (Cons x xs)
  obtain c rate ts where x: "x = (c, rate, ts)" by (cases x) auto
  let ?row = "\<lparr>r_id = next_id rows, r_currency = c, r_rate = rate, r_timestamp = ts\<rparr>"
  from insert_rows_Cons_Inr [OF Cons.prems] obtain rows1
    where r1: "insert_row rows x = Inr rows1" and ins: "insert_rows rows1 xs = Inr rows'"
    by blast
  from r1 have e: "rows1 = rows @ [?row]" unfolding x by (rule insert_row_Inr [THEN conjunct2])
  from Cons.IH [OF ins] obtain new where n: "rows' = rows1 @ new" "map row_data new = xs"
    by blast
  have "rows' = rows @ (?row # new)" using n(1) e by simp
  moreover have "map row_data (?row # new) = x # xs" using n(2) by (simp add: x row_data_def)
  ultimately have "rows' = rows @ (?row # new) \<and> map row_data (?row # new) = x # xs" ..
  then show ?case by (rule exI)
qed








lemma pending_rates_valid:
  "(c, v, ts) \<in> set (pending_rates rates t) \<Longrightarrow> \<exists>q. v = Num q \<and> 0 < q"
proof (induction rates)
  case Nil
  then show ?case by simp
next
  case (Cons p rest)
  obtain cur rate where p: "p = (cur, rate)" by (cases p) auto
  show ?case
  proof (cases "cur = ''USD'' \<or> is_invalid rate")
    case True
    then have "pending_rates (p # rest) t = pending_rates rest t" by (auto simp: p)
    with Cons.prems have "(c, v, ts) \<in> set (pending_rates rest t)" by simp
    then show ?thesis by (rule Cons.IH)
  next
    case False
    then obtain q where q: "rate = Some (Num q)" "0 < q"
      by (cases rate; cases "the rate") (auto simp: is_invalid_def)
    with False have "pending_rates (p # rest) t = (cur, Num q, t) # pending_rates rest t"
      by (simp add: p)
    with Cons.prems have "(c, v, ts) = (cur, Num q, t) \<or> (c, v, ts) \<in> set (pending_rates rest t)"
      by simp
    then show ?thesis
    proof
      assume "(c, v, ts) = (cur, Num q, t)"
      with q(2) show ?thesis by simp
    next
      assume "(c, v, ts) \<in> set (pending_rates rest t)"
      then show ?thesis by (rule Cons.IH)
    qed
  qed
qed

lemma save_rates_only_valid:
  assumes "row \<in> set (save_rates rates t rows)"
  shows "row \<in> set rows \<or> (\<exists>q. r_rate row = Num q \<and> 0 < q)"
proof (cases "insert_rows rows (pending_rates rates t)")
  case (Inl e)
  with assms show ?thesis by (simp add: save_rates_def)
next
  case (Inr rows')
  from insert_rows_prefix [OF Inr] obtain new
    where new: "rows' = rows @ new" "map row_data new = pending_rates rates t" by blast
  from assms Inr new(1) have "row \<in> set rows \<or> row \<in> set new" by (simp add: save_rates_def)
  then show ?thesis
  proof
    assume "row \<in> set rows" then show ?thesis ..
  next
    assume "row \<in> set new"
    then have "row_data row \<in> set (map row_data new)" by simp
    then have "(r_currency row, r_rate row, r_timestamp row) \<in> set (pending_rates rates t)"
      by (simp only: new(2) row_data_def)
    then have "\<exists>q. r_rate row = Num q \<and> 0 < q" by (rule pending_rates_valid)
    then show ?thesis ..
  qed
qed

text \<open>
  C3 (the code does not do what the claim says): \<open>save_rates\<close> drops invalid rates
  (\<open>save_rates_only_valid\<close>), but \<open>save_history_batch\<close> has no validation. A
  record with the rate -1 is inserted in insert-if-new mode, and one with the rate 0 in
  upsert mode.
\<close>

theorem save_history_batch_inserts_invalid_rate: 
  "save_history_batch [\<lparr>h_currency = ''EUR'', h_rate = Some (Num (- 1)), h_timestamp = 0\<rparr>] False []
     = ([\<lparr>r_id = 1, r_currency = ''EUR'', r_rate = Num (- 1), r_timestamp = 0\<rparr>], Some 1) \<and>
   save_history_batch [\<lparr>h_currency = ''EUR'', h_rate = Some (Num 0), h_timestamp = 0\<rparr>] True []
     = ([\<lparr>r_id = 1, r_currency = ''EUR'', r_rate = Num 0, r_timestamp = 0\<rparr>], Some 1)"
  by code_simp

subsection \<open>Persistence mode of the backfill\<close>





subsection \<open>The pivot entry of rate maps\<close>

lemma get_rates_from_db_fst:
  "k \<notin> set cs \<Longrightarrow> fst (get_rates_from_db rows cs rs seen) k = rs k"
  by (induction cs arbitrary: rs seen) (simp_all add: Let_def)

lemma get_rates_from_db_snd: "snd (get_rates_from_db rows cs rs seen) = seen @ cs"
  by (induction cs arbitrary: rs seen) (simp_all add: Let_def)

lemma merge_rates_fst:
  "k \<notin> set cs \<Longrightarrow> fst (merge_rates tm m cs rs pd) k = rs k"
  by (induction cs arbitrary: rs pd) (simp_all split: option.splits)

lemma set_fallbacks_other: "k \<notin> set cs \<Longrightarrow> set_fallbacks cs rs k = rs k"
  unfolding set_fallbacks_def by (induction cs arbitrary: rs) simp_all

lemma dict_set_subset: "set (dict_set k v d) \<subseteq> insert (k, v) (set d)"
  by (auto simp: dict_set_def)

lemma ticker_map_fold:
  "(c, t) \<in> set (fold (\<lambda>c m. case resolve_ticker c of
                                  None \<Rightarrow> m
                                | Some t \<Rightarrow> if t = [] then m else dict_set c t m) cs m0) \<Longrightarrow>
   (c, t) \<in> set m0 \<or> (c \<in> set cs \<and> resolve_ticker c = Some t)"
proof (induction cs arbitrary: m0)
  case Nil
  then show ?case by simp
next
  case (Cons x xs)
  let ?m1 = "case resolve_ticker x of None \<Rightarrow> m0
             | Some t \<Rightarrow> if t = [] then m0 else dict_set x t m0"
  from Cons.prems have "(c, t) \<in> set (fold (\<lambda>c m. case resolve_ticker c of
                                  None \<Rightarrow> m
                                | Some t \<Rightarrow> if t = [] then m else dict_set c t m) xs ?m1)"
    by simp
  from Cons.IH [OF this] have "(c, t) \<in> set ?m1 \<or> (c \<in> set xs \<and> resolve_ticker c = Some t)" .
  moreover have "(c, t) \<in> set ?m1 \<Longrightarrow> (c, t) \<in> set m0 \<or> (c = x \<and> resolve_ticker c = Some t)"
    using dict_set_subset [of x _ m0] by (auto split: option.splits if_splits)
  ultimately show ?case by auto
qed

lemma ticker_map_sound:
  "(c, t) \<in> set (ticker_map cs) \<Longrightarrow> c \<in> set cs \<and> resolve_ticker c = Some t"
  unfolding ticker_map_def using ticker_map_fold [of c t cs "[]"] by simp

lemma needed_fold:
  "(c, Some t) \<in> set (fold (\<lambda>c m. if c = ''USD'' then m else dict_set c (resolve_ticker c) m)
                          cs m0) \<Longrightarrow>
   (c, Some t) \<in> set m0 \<or> (c \<in> set cs \<and> c \<noteq> ''USD'' \<and> resolve_ticker c = Some t)"
proof (induction cs arbitrary: m0)
  case Nil
  then show ?case by simp
next
  case (Cons x xs)
  let ?m1 = "if x = ''USD'' then m0 else dict_set x (resolve_ticker x) m0"
  from Cons.prems
  have "(c, Some t) \<in> set (fold (\<lambda>c m. if c = ''USD'' then m
                                        else dict_set c (resolve_ticker c) m) xs ?m1)"
    by simp
  from Cons.IH [OF this]
  have "(c, Some t) \<in> set ?m1 \<or> (c \<in> set xs \<and> c \<noteq> ''USD'' \<and> resolve_ticker c = Some t)" .
  moreover have "(c, Some t) \<in> set ?m1 \<Longrightarrow>
      (c, Some t) \<in> set m0 \<or> (c = x \<and> c \<noteq> ''USD'' \<and> resolve_ticker c = Some t)"
    using dict_set_subset [of x "resolve_ticker x" m0] by (auto split: if_splits)
  ultimately show ?case by auto
qed

lemma needed_tickers_sound:
  "(c, Some t) \<in> set (needed_tickers cs) \<Longrightarrow>
   c \<in> set cs \<and> c \<noteq> ''USD'' \<and> resolve_ticker c = Some t"
  unfolding needed_tickers_def using needed_fold [of c t cs "[]"] by simp

lemma unique_tickers_sound:
  "t \<in> set (unique_tickers needed) \<Longrightarrow> \<exists>c. (c, Some t) \<in> set needed"
  by (auto simp: unique_tickers_def split: option.splits if_splits)

lemma rates_for_date_usd: "rates_for_date cache cs d ''USD'' = Some 1"
proof -
  have "fold (\<lambda>c m. if c = ''USD'' then m
                     else m(c \<mapsto> (case lookup_back cache d c of None \<Rightarrow> 0 | Some v \<Rightarrow> v)))
          cs m0 ''USD'' = m0 ''USD''" for m0 :: rates
    by (induction cs arbitrary: m0) simp_all
  then show ?thesis by (simp add: rates_for_date_def)
qed

lemma fold_upd_other:
  "k \<notin> set ys \<Longrightarrow> fold (\<lambda>d res. res(d \<mapsto> g d)) ys m k = m k"
  by (induction ys arbitrary: m) simp_all

lemma fold_upd_result:
  "d \<in> set ds \<Longrightarrow> fold (\<lambda>d res. res(d \<mapsto> g d)) ds m d = Some (g d)"
proof (induction ds arbitrary: m)
  case Nil
  then show ?case by simp
next
  case (Cons x xs)
  show ?case
  proof (cases "d \<in> set xs")
    case True
    then show ?thesis using Cons.IH by simp
  next
    case False
    with Cons.prems have dx: "d = x" by simp
    have "fold (\<lambda>d res. res(d \<mapsto> g d)) (x # xs) m d
            = fold (\<lambda>d res. res(d \<mapsto> g d)) xs (m(x \<mapsto> g x)) d" by simp
    also have "\<dots> = (m(x \<mapsto> g x)) d" using False by (rule fold_upd_other)
    also have "\<dots> = Some (g d)" using dx by simp
    finally show ?thesis .
  qed
qed


lemma get_rates_usd:
  "sr_rates (get_rates fetch lock_acquired now rows currencies fresh) ''USD'' = Some 1"
proof -
  let ?tf = "filter (\<lambda>c. c \<noteq> ''USD'') currencies"
  let ?rs = "[''USD'' \<mapsto> 1] :: rates"
  have nin: "''USD'' \<notin> set ?tf" by simp
  have db: "fst (get_rates_from_db rows ?tf ?rs []) ''USD'' = Some 1"
    using get_rates_from_db_fst [OF nin, of rows ?rs "[]"] by simp
  have mr: "fst (merge_rates tm m ?tf ?rs []) ''USD'' = Some 1" for tm m
    using merge_rates_fst [OF nin, of tm m ?rs "[]"] by simp
  have fb: "set_fallbacks ?tf ?rs ''USD'' = Some 1"
    using set_fallbacks_other [OF nin, of ?rs] by simp
  have fr: "sr_rates (fetch_fresh_rates fetch lock_acquired now rows ?tf ?rs) ''USD'' = Some 1"
    using mr fb by (simp add: fetch_fresh_rates_def Let_def split: prod.splits) (metis fst_conv)
  show ?thesis
    using db fr by (simp add: get_rates_def Let_def split: prod.splits) (metis fst_conv)
qed


lemma get_rates_store_log:
  "''USD'' \<notin> set (sr_store_log (get_rates fetch lock_acquired now rows currencies fresh))"
proof -
  let ?tf = "filter (\<lambda>c. c \<noteq> ''USD'') currencies"
  let ?rs = "[''USD'' \<mapsto> 1] :: rates"
  have ff: "sr_store_log (fetch_fresh_rates fetch lock_acquired now rows ?tf ?rs) = []"
    by (simp add: fetch_fresh_rates_def Let_def split: prod.splits)
  obtain rs' seen where g: "get_rates_from_db rows ?tf ?rs [] = (rs', seen)"
    by (cases "get_rates_from_db rows ?tf ?rs []") auto
  then have seen: "seen = ?tf"
    using get_rates_from_db_snd [of rows ?tf ?rs "[]"] by simp
  show ?thesis by (simp add: get_rates_def Let_def g ff seen)
qed

lemma fetch_fresh_provider_log:
  assumes "q \<in> set (sr_provider_log (fetch_fresh_rates fetch lock_acquired now rows cs rs))"
    and "t \<in> set q"
  shows "\<exists>c \<in> set cs. resolve_ticker c = Some t"
proof -
  from assms(1) have "q = map snd (ticker_map cs)"
    by (simp add: fetch_fresh_rates_def Let_def split: if_splits prod.splits)
  with assms(2) obtain c where "(c, t) \<in> set (ticker_map cs)" by auto
  then show ?thesis using ticker_map_sound by blast
qed

lemma get_rates_provider_log:
  assumes "q \<in> set (sr_provider_log (get_rates fetch lock_acquired now rows currencies fresh))"
    and "t \<in> set q"
  shows "\<exists>c \<in> set currencies. c \<noteq> ''USD'' \<and> resolve_ticker c = Some t"
proof -
  let ?tf = "filter (\<lambda>c. c \<noteq> ''USD'') currencies"
  from assms(1)
  have "q \<in> set (sr_provider_log (fetch_fresh_rates fetch lock_acquired now rows ?tf [''USD'' \<mapsto> 1]))"
    by (simp add: get_rates_def Let_def split: if_splits prod.splits)
  from fetch_fresh_provider_log [OF this assms(2)] show ?thesis by auto
qed

lemma range_result_usd:
  assumes "dates \<noteq> []" and "currencies \<noteq> []" and "d \<in> set dates"
  shows "\<exists>m. rr_result (get_historical_rates_range fetch rows dates currencies) d = Some m \<and>
             m ''USD'' = Some 1"
proof -
  obtain d0 ds where dates: "dates = d0 # ds" using assms(1) by (cases dates) auto
  have "\<exists>cache. rr_result (get_historical_rates_range fetch rows dates currencies)
          = fold (\<lambda>d res. res(d \<mapsto> rates_for_date cache currencies d)) dates Map.empty"
    using assms(2) unfolding dates get_historical_rates_range_def Let_def
    by (simp only: list.case if_False range_result.simps) (rule exI, rule refl)
  then obtain cache where "rr_result (get_historical_rates_range fetch rows dates currencies) d
      = fold (\<lambda>d res. res(d \<mapsto> rates_for_date cache currencies d)) dates Map.empty d"
    by auto
  also have "\<dots> = Some (rates_for_date cache currencies d)"
    using assms(3) by (rule fold_upd_result)
  finally show ?thesis by (simp add: rates_for_date_usd)
qed

lemma range_provider_log:
  assumes "q \<in> set (rr_provider_log (get_historical_rates_range fetch rows dates currencies))"
    and "t \<in> set q"
  shows "\<exists>c \<in> set currencies. c \<noteq> ''USD'' \<and> resolve_ticker c = Some t"
proof -
  have "rr_provider_log (get_historical_rates_range fetch rows dates currencies) = [] \<or>
        rr_provider_log (get_historical_rates_range fetch rows dates currencies)
          = [unique_tickers (needed_tickers currencies)]"
    unfolding get_historical_rates_range_def Let_def
    by (simp split: list.splits)
  with assms have "t \<in> set (unique_tickers (needed_tickers currencies))" by auto
  then obtain c where "(c, Some t) \<in> set (needed_tickers currencies)"
    using unique_tickers_sound by blast
  then show ?thesis using needed_tickers_sound by blast
qed

text \<open>
  C10 (as stated, refuted): with an empty currency list \<open>get_historical_rates_range\<close>
  returns the empty dictionary, so the requested date has no rate map and no USD entry;
  and with USD among the requested currencies the table is queried with USD in its
  currency list.
\<close>

theorem range_usd_counterexample:
  "range_rate (get_historical_rates_range no_history [] [0] []) 0 ''USD'' = None \<and>
   rr_store_log (get_historical_rates_range no_history [] [0] [''USD'']) = [ [''USD''] ]"
  by (simp add: range_rate_def get_historical_rates_range_def Let_def)

text \<open>
  C10 (amended): the rate map returned by \<open>get_rates\<close> contains USD = 1.0 in both
  modes, also when USD is not requested, and \<open>get_rates\<close> neither looks USD up in the
  table nor sends the provider a ticker for it: every ticker sent is the resolution of a
  requested currency other than USD. \<open>get_historical_rates_range\<close> includes USD = 1.0
  under every requested date whenever the date list and the currency list are both
  non-empty, and every ticker it sends to the provider is the resolution of a requested
  currency other than USD.
\<close>

theorem usd_pivot_entry:
  "sr_rates (get_rates fetch lock_acquired now rows currencies fresh) ''USD'' = Some 1 \<and>
   ''USD'' \<notin> set (sr_store_log (get_rates fetch lock_acquired now rows currencies fresh)) \<and>
   (\<forall>q \<in> set (sr_provider_log (get_rates fetch lock_acquired now rows currencies fresh)).
      \<forall>t \<in> set q. \<exists>c \<in> set currencies. c \<noteq> ''USD'' \<and> resolve_ticker c = Some t) \<and>
   (dates \<noteq> [] \<and> currencies \<noteq> [] \<longrightarrow>
      (\<forall>d \<in> set dates.
         range_rate (get_historical_rates_range fetch_hist rows dates currencies) d ''USD''
           = Some 1)) \<and>
   (\<forall>q \<in> set (rr_provider_log (get_historical_rates_range fetch_hist rows dates currencies)).
      \<forall>t \<in> set q. \<exists>c \<in> set currencies. c \<noteq> ''USD'' \<and> resolve_ticker c = Some t)"
proof (intro conjI ballI impI)
  show "sr_rates (get_rates fetch lock_acquired now rows currencies fresh) ''USD'' = Some 1"
    by (rule get_rates_usd)
next
  show "''USD'' \<notin> set (sr_store_log (get_rates fetch lock_acquired now rows currencies fresh))"
    by (rule get_rates_store_log)
next
  fix q t
  assume "q \<in> set (sr_provider_log (get_rates fetch lock_acquired now rows currencies fresh))"
    and "t \<in> set q"
  then show "\<exists>c \<in> set currencies. c \<noteq> ''USD'' \<and> resolve_ticker c = Some t"
    by (rule get_rates_provider_log)
next
  fix d
  assume "dates \<noteq> [] \<and> currencies \<noteq> []" and "d \<in> set dates"
  then obtain m
    where "rr_result (get_historical_rates_range fetch_hist rows dates currencies) d = Some m"
      and "m ''USD'' = Some 1"
    using range_result_usd [of dates currencies d fetch_hist rows] by auto
  then show "range_rate (get_historical_rates_range fetch_hist rows dates currencies) d ''USD''
               = Some 1"
    by (simp add: range_rate_def)
next
  fix q t
  assume "q \<in> set (rr_provider_log (get_historical_rates_range fetch_hist rows dates currencies))"
    and "t \<in> set q"
  then show "\<exists>c \<in> set currencies. c \<noteq> ''USD'' \<and> resolve_ticker c = Some t"
    by (rule range_provider_log)
qed

theorem usd_pivot_entry_witness:
  "sr_rates (get_rates eur_quote True 0 [] [''EUR''] True) ''USD'' = Some 1 \<and>
   sr_rates (get_rates eur_quote True 0 [] [''EUR''] True) ''EUR'' = Some (11 / 10) \<and>
   sr_provider_log (get_rates eur_quote True 0 [] [''EUR''] True) = [ [''EURUSD=X''] ] \<and>
   range_rate (get_historical_rates_range no_history [] [5] [''EUR'']) 5 ''USD'' = Some 1"
proof -
  have h: "[5 :: int] \<noteq> [] \<and> [''EUR''] \<noteq> []" by simp
  have "sr_rates (get_rates eur_quote True 0 [] [''EUR''] True) ''USD'' = Some 1"
    using usd_pivot_entry [of eur_quote True 0 "[]" "[''EUR'']" True "[5]" no_history]
    by (rule conjunct1)
  moreover have "range_rate (get_historical_rates_range no_history [] [5] [''EUR'']) 5 ''USD''
                   = Some 1"
    using usd_pivot_entry [of eur_quote True 0 "[]" "[''EUR'']" True "[5]" no_history] h
    by simp
  moreover have tm: "ticker_map [''EUR''] = [(''EUR'', ''EURUSD=X'')]"
    by (simp add: ticker_map_def resolve_ticker_def upper_def upper_char_def endswith_def
        CRYPTO_SET_def dict_set_def)
  have "sr_rates (get_rates eur_quote True 0 [] [''EUR''] True) ''EUR'' = Some (11 / 10) \<and>
        sr_provider_log (get_rates eur_quote True 0 [] [''EUR''] True) = [ [''EURUSD=X''] ]"
    by (simp add: get_rates_def fetch_fresh_rates_def tm eur_quote_def dict_set_def Let_def)
  ultimately show ?thesis by simp
qed

subsection \<open>Money-weighted return without a result\<close>




























end
